theory Spec2Isabelle
  imports Complex_Main "HOL-Library.Product_Lexorder"
begin

section \<open>Data model of \<^verbatim>\<open>database_manager.py\<close>\<close>

text \<open>
  The embedding follows \<^verbatim>\<open>DatabaseManager\<close>: the two summary tables created by
  \<^verbatim>\<open>create_tables\<close>, the two batch inserts and \<^verbatim>\<open>generate_automated_report\<close> with the
  six SQL queries it issues.

  Modelling decisions:
  \<^item> A \<^verbatim>\<open>DATE\<close> is a year, a month and a day, compared lexicographically.
  \<^item> \<^verbatim>\<open>DECIMAL\<close> columns and Python floats are exact rationals; the rounding of the
    storage engine and of binary floating point is not modelled.
  \<^item> Every column except \<^verbatim>\<open>report_date\<close>, \<^verbatim>\<open>project_code\<close> and \<^verbatim>\<open>department_name\<close>
    is nullable, as in the \<^verbatim>\<open>CREATE TABLE\<close> statements; \<open>None\<close> is SQL \<^verbatim>\<open>NULL\<close>.
  \<^item> The columns \<^verbatim>\<open>id\<close> and \<^verbatim>\<open>created_at\<close> are read by no query and are left out; a
    table is the list of its rows in insertion order, so equal rows stay separate rows.
  \<^item> String comparison in SQL is equality of the strings.
  \<^item> A statement sent to the server may raise \<^verbatim>\<open>mysql.connector.Error\<close>. Which statements
    of a call do is given by a list of booleans, one per statement in the order they are
    issued (\<open>True\<close>: the statement raises); statements beyond the list succeed.
    \<^verbatim>\<open>rollback()\<close> in an exception handler does not raise.
  \<^item> All readings of \<^verbatim>\<open>datetime.now()\<close> within one call give the same date \<open>now\<close>.
\<close>

datatype date = Date (year: nat) (month: nat) (day: nat)

definition date_le :: "date \<Rightarrow> date \<Rightarrow> bool" where
  "date_le a b \<longleftrightarrow>
     year a < year b \<or>
     (year a = year b \<and> (month a < month b \<or> (month a = month b \<and> day a \<le> day b)))"

text \<open>Rows of the table \<^verbatim>\<open>financial_summary\<close>.\<close>

record fin_row =
  report_date :: date
  project_code :: string
  project_name :: "string option"
  project_type :: "string option"
  status :: "string option"
  contract_price :: "rat option"
  purchase_cost :: "rat option"
  labor_cost :: "rat option"
  total_cost :: "rat option"
  profit :: "rat option"
  profit_margin :: "rat option"
  total_hours :: "rat option"
  efficiency_score :: "rat option"

text \<open>Rows of the table \<^verbatim>\<open>department_summary\<close>.\<close>

record dept_row =
  dept_report_date :: date
  department_name :: string
  dept_total_hours :: "rat option"
  total_labor_cost :: "rat option"
  num_projects :: "int option"
  num_tasks :: "int option"
  avg_hourly_rate :: "rat option"

text \<open>
  The state behind \<^verbatim>\<open>self.connection\<close>: the committed rows of both tables and the rows
  written by the open transaction, which \<^verbatim>\<open>commit()\<close> makes durable and \<^verbatim>\<open>rollback()\<close>
  discards.
\<close>

record connection =
  financial_summary :: "fin_row list"
  department_summary :: "dept_row list"
  fin_uncommitted :: "fin_row list"
  dept_uncommitted :: "dept_row list"

definition commit :: "connection \<Rightarrow> connection" where
  "commit c =
     \<lparr>financial_summary = financial_summary c @ fin_uncommitted c,
      department_summary = department_summary c @ dept_uncommitted c,
      fin_uncommitted = [],
      dept_uncommitted = []\<rparr>"

definition rollback :: "connection \<Rightarrow> connection" where
  "rollback c = c\<lparr>fin_uncommitted := [], dept_uncommitted := []\<rparr>"

text \<open>The rows a query of this connection sees: the committed ones and its own writes.\<close>

definition fin_visible :: "connection \<Rightarrow> fin_row list" where
  "fin_visible c = financial_summary c @ fin_uncommitted c"

definition dept_visible :: "connection \<Rightarrow> dept_row list" where
  "dept_visible c = department_summary c @ dept_uncommitted c"

datatype error = MySQLError | TypeError

definition raises :: "bool list \<Rightarrow> nat \<Rightarrow> bool" where
  "raises faults k \<longleftrightarrow> k < length faults \<and> faults ! k"

section \<open>The batch inserts\<close>

text \<open>
  One row of the frame passed to \<^verbatim>\<open>insert_financial_summary\<close>. The fields read with
  \<^verbatim>\<open>row.get(name, default)\<close> are optional: \<open>None\<close> means the row has no such field.
  \<^verbatim>\<open>Status\<close> is read without conversion, so a present field may still hold Python's
  \<^verbatim>\<open>None\<close> (\<open>Some None\<close>). Numeric fields hold finite numbers, except
  \<^verbatim>\<open>ProfitMargin\<close>: the margin of a project with contract price 0 is undefined and is
  \<^verbatim>\<open>NaN\<close> in the frame, which is \<open>None\<close> here.
\<close>

record summary_row =
  ProjectCode :: string
  ProjectName :: "string option"
  ProjectType :: "string option"
  Status :: "string option option"
  ContractPrice :: rat
  PurchaseCost :: rat
  LaborCost :: "rat option"
  TotalCost :: rat
  Profit :: rat
  ProfitMargin :: "rat option"
  TotalHours :: "rat option"
  EfficiencyScore :: "rat option"

text \<open>\<^verbatim>\<open>row.get(name, default)\<close>\<close>

definition get_default :: "'a option \<Rightarrow> 'a \<Rightarrow> 'a" where
  "get_default field dflt = (case field of None \<Rightarrow> dflt | Some v \<Rightarrow> v)"

text \<open>
  The tuple appended to \<^verbatim>\<open>data_to_insert\<close> for one row, as the row it becomes.
  \<^verbatim>\<open>float\<close> of a \<^verbatim>\<open>NaN\<close> is \<^verbatim>\<open>NaN\<close>, which a \<^verbatim>\<open>DECIMAL\<close> column cannot hold: the statement
  that carries it either raises, which the list of faults covers, or sends it as \<^verbatim>\<open>NULL\<close>.
  So the \<^verbatim>\<open>NaN\<close> margin of a statement that succeeds is stored as \<^verbatim>\<open>NULL\<close>.
\<close>

definition fin_tuple :: "date \<Rightarrow> summary_row \<Rightarrow> fin_row" where
  "fin_tuple d row =
     \<lparr>report_date = d,
      project_code = ProjectCode row,
      project_name = ProjectName row,
      project_type = ProjectType row,
      status = get_default (Status row) (Some ''Unknown''),
      contract_price = Some (ContractPrice row),
      purchase_cost = Some (PurchaseCost row),
      labor_cost = Some (get_default (LaborCost row) 0),
      total_cost = Some (TotalCost row),
      profit = Some (Profit row),
      profit_margin = ProfitMargin row,
      total_hours = Some (get_default (TotalHours row) 0),
      efficiency_score = Some (get_default (EfficiencyScore row) 0)\<rparr>"

text \<open>
  A date parameter that defaults to \<^verbatim>\<open>datetime.now().strftime('%Y-%m-%d')\<close>; \<open>now\<close> is
  the date of \<^verbatim>\<open>datetime.now()\<close>.
\<close>

definition today_if_none :: "date \<Rightarrow> date option \<Rightarrow> date" where
  "today_if_none now date_arg = (case date_arg of None \<Rightarrow> now | Some d \<Rightarrow> d)"

text \<open>
  \<^verbatim>\<open>insert_financial_summary(summary_df, report_date)\<close>. Statement 0 is \<^verbatim>\<open>executemany\<close>,
  statement 1 is \<^verbatim>\<open>commit\<close>. The result is the exception that leaves the call (\<open>None\<close>:
  the call returns) and the new state; \<open>date_arg\<close> is the parameter \<^verbatim>\<open>report_date\<close>.
\<close>

definition insert_financial_summary ::
  "bool list \<Rightarrow> date \<Rightarrow> connection \<Rightarrow> summary_row list \<Rightarrow> date option
     \<Rightarrow> error option \<times> connection" where
  "insert_financial_summary faults now c summary_df date_arg =
     (let d = today_if_none now date_arg;
          data_to_insert = map (fin_tuple d) summary_df
      in if raises faults 0 then (Some MySQLError, rollback c)
         else let c1 = c\<lparr>fin_uncommitted := fin_uncommitted c @ data_to_insert\<rparr>
              in if raises faults 1 then (Some MySQLError, rollback c1)
                 else (None, commit c1))"

text \<open>
  One row of the frame passed to \<^verbatim>\<open>insert_department_summary\<close>; \<open>Department\<close> is the
  index label of the row.
\<close>

record dept_summary_row =
  Department :: string
  DeptTotalHours :: rat
  TotalLaborCost :: rat
  NumProjects :: int
  NumTasks :: int
  HourlyRate :: rat

definition dept_tuple :: "date \<Rightarrow> dept_summary_row \<Rightarrow> dept_row" where
  "dept_tuple d row =
     \<lparr>dept_report_date = d,
      department_name = Department row,
      dept_total_hours = Some (DeptTotalHours row),
      total_labor_cost = Some (TotalLaborCost row),
      num_projects = Some (NumProjects row),
      num_tasks = Some (NumTasks row),
      avg_hourly_rate = Some (HourlyRate row)\<rparr>"

definition insert_department_summary ::
  "bool list \<Rightarrow> date \<Rightarrow> connection \<Rightarrow> dept_summary_row list \<Rightarrow> date option
     \<Rightarrow> error option \<times> connection" where
  "insert_department_summary faults now c dept_summary_df date_arg =
     (let d = today_if_none now date_arg;
          data_to_insert = map (dept_tuple d) dept_summary_df
      in if raises faults 0 then (Some MySQLError, rollback c)
         else let c1 = c\<lparr>dept_uncommitted := dept_uncommitted c @ data_to_insert\<rparr>
              in if raises faults 1 then (Some MySQLError, rollback c1)
                 else (None, commit c1))"

section \<open>SQL evaluation\<close>

text \<open>
  Aggregates skip \<^verbatim>\<open>NULL\<close>; \<^verbatim>\<open>SUM\<close> and \<^verbatim>\<open>AVG\<close> over no non-null value are \<^verbatim>\<open>NULL\<close>.
\<close>

fun non_null :: "'a option list \<Rightarrow> 'a list" where
  "non_null [] = []"
| "non_null (None # vs) = non_null vs"
| "non_null (Some v # vs) = v # non_null vs"

definition sql_sum :: "rat option list \<Rightarrow> rat option" where
  "sql_sum vs = (case non_null vs of [] \<Rightarrow> None | x # xs \<Rightarrow> Some (sum_list (x # xs)))"

definition sql_avg :: "rat option list \<Rightarrow> rat option" where
  "sql_avg vs =
     (case non_null vs of
        [] \<Rightarrow> None
      | x # xs \<Rightarrow> Some (sum_list (x # xs) / of_nat (length (x # xs))))"

definition count_distinct :: "'a option list \<Rightarrow> nat" where
  "count_distinct vs = length (remdups (non_null vs))"

text \<open>
  A \<^verbatim>\<open>WHERE\<close> clause keeps the rows on which its condition is true; a comparison with
  \<^verbatim>\<open>NULL\<close> is not true. The clauses of the source are conjunctions of the following.
\<close>

definition between :: "date \<Rightarrow> date \<Rightarrow> date \<Rightarrow> bool" where
  "between d lo hi \<longleftrightarrow> date_le lo d \<and> date_le d hi"

definition is_less :: "rat option \<Rightarrow> rat \<Rightarrow> bool" where
  "is_less v k = (case v of None \<Rightarrow> False | Some x \<Rightarrow> x < k)"

definition is_greater :: "rat option \<Rightarrow> rat \<Rightarrow> bool" where
  "is_greater v k = (case v of None \<Rightarrow> False | Some x \<Rightarrow> k < x)"

definition is_equal :: "string option \<Rightarrow> string \<Rightarrow> bool" where
  "is_equal v s = (case v of None \<Rightarrow> False | Some x \<Rightarrow> x = s)"

definition is_not_equal :: "string option \<Rightarrow> string \<Rightarrow> bool" where
  "is_not_equal v s = (case v of None \<Rightarrow> False | Some x \<Rightarrow> x \<noteq> s)"

text \<open>
  \<^verbatim>\<open>GROUP BY\<close>: one group per distinct key among the selected rows, \<^verbatim>\<open>NULL\<close> keys in a
  group of their own. The order of the groups is not fixed by SQL; here they come in the
  order of the last row of each group.
\<close>

definition group_keys :: "('r \<Rightarrow> 'k) \<Rightarrow> 'r list \<Rightarrow> 'k list" where
  "group_keys key rows = remdups (map key rows)"

definition group_of :: "('r \<Rightarrow> 'k) \<Rightarrow> 'r list \<Rightarrow> 'k \<Rightarrow> 'r list" where
  "group_of key rows k = filter (\<lambda>r. key r = k) rows"

text \<open>\<^verbatim>\<open>summary_query\<close>\<close>

definition summary_query ::
  "fin_row list \<Rightarrow> date \<Rightarrow> date
     \<Rightarrow> (nat \<times> rat option \<times> rat option \<times> rat option \<times> rat option \<times> rat option) list" where
  "summary_query rows start_date end_date =
     (let sel = filter (\<lambda>r. between (report_date r) start_date end_date) rows
      in [(count_distinct (map (\<lambda>r. Some (project_code r)) sel),
           sql_sum (map contract_price sel),
           sql_sum (map total_cost sel),
           sql_sum (map profit sel),
           sql_avg (map profit_margin sel),
           sql_sum (map total_hours sel))])"

text \<open>\<^verbatim>\<open>type_query\<close>\<close>

definition type_query ::
  "fin_row list \<Rightarrow> date \<Rightarrow> date \<Rightarrow> (string option \<times> nat \<times> rat option \<times> rat option) list" where
  "type_query rows start_date end_date =
     (let sel = filter (\<lambda>r. between (report_date r) start_date end_date) rows
      in map (\<lambda>k. let g = group_of project_type sel k
                  in (k, length g, sql_sum (map profit g), sql_avg (map profit_margin g)))
           (group_keys project_type sel))"

text \<open>\<^verbatim>\<open>status_query\<close>\<close>

definition status_query ::
  "fin_row list \<Rightarrow> date \<Rightarrow> date \<Rightarrow> (string option \<times> nat \<times> rat option) list" where
  "status_query rows start_date end_date =
     (let sel = filter (\<lambda>r. between (report_date r) start_date end_date
                           \<and> is_equal (project_type r) ''GS''
                           \<and> is_not_equal (status r) ''Unknown'') rows
      in map (\<lambda>k. let g = group_of status sel k
                  in (k, length g, sql_avg (map profit_margin g)))
           (group_keys status sel))"

text \<open>
  \<^verbatim>\<open>dept_query\<close>. \<^verbatim>\<open>ORDER BY total_hours DESC\<close> names the alias of the select list, the
  summed hours; \<^verbatim>\<open>NULL\<close> sorts last in descending order. The sort is stable, which
  fixes the order among equal sums that SQL leaves open.
\<close>

definition desc_key :: "string \<times> rat option \<times> rat option \<times> rat option \<Rightarrow> bool \<times> rat" where
  "desc_key row = (case fst (snd row) of None \<Rightarrow> (True, 0) | Some h \<Rightarrow> (False, - h))"

definition dept_groups ::
  "dept_row list \<Rightarrow> date \<Rightarrow> date \<Rightarrow> (string \<times> rat option \<times> rat option \<times> rat option) list" where
  "dept_groups rows start_date end_date =
     (let sel = filter (\<lambda>r. between (dept_report_date r) start_date end_date) rows
      in map (\<lambda>k. let g = group_of department_name sel k
                  in (k, sql_sum (map dept_total_hours g),
                         sql_sum (map total_labor_cost g),
                         sql_avg (map (\<lambda>r. map_option rat_of_int (num_projects r)) g)))
           (group_keys department_name sel))"

definition dept_query ::
  "dept_row list \<Rightarrow> date \<Rightarrow> date \<Rightarrow> (string \<times> rat option \<times> rat option \<times> rat option) list" where
  "dept_query rows start_date end_date =
     take 10 (sort_key desc_key (dept_groups rows start_date end_date))"

text \<open>\<^verbatim>\<open>loss_query\<close>\<close>

definition loss_query :: "fin_row list \<Rightarrow> date \<Rightarrow> date \<Rightarrow> (nat \<times> rat option) list" where
  "loss_query rows start_date end_date =
     (let sel = filter (\<lambda>r. between (report_date r) start_date end_date
                           \<and> is_less (profit r) 0) rows
      in [(length sel, sql_sum (map profit sel))])"

text \<open>\<^verbatim>\<open>low_eff_query\<close>\<close>

definition low_eff_query :: "fin_row list \<Rightarrow> date \<Rightarrow> date \<Rightarrow> nat list" where
  "low_eff_query rows start_date end_date =
     (let sel = filter (\<lambda>r. between (report_date r) start_date end_date
                           \<and> is_less (efficiency_score r) 100
                           \<and> is_greater (total_hours r) 0) rows
      in [length sel])"

text \<open>The cursor: \<^verbatim>\<open>execute\<close> as the \<open>k\<close>-th statement of the call, \<^verbatim>\<open>fetchone\<close>.\<close>

definition execute :: "bool list \<Rightarrow> nat \<Rightarrow> 'a list \<Rightarrow> error + 'a list" where
  "execute faults k result = (if raises faults k then Inl MySQLError else Inr result)"

definition fetchone :: "'a list \<Rightarrow> 'a option" where
  "fetchone result = (case result of [] \<Rightarrow> None | r # _ \<Rightarrow> Some r)"

section \<open>The automated report\<close>

text \<open>
  Number formatting of the alert messages: \<^verbatim>\<open>str\<close> of a count, and the format
  \<^verbatim>\<open>,.2f\<close>, which rounds to two decimals (a tie goes to the even neighbour) and
  separates groups of three digits of the integer part by commas.
\<close>

definition digit_char :: "nat \<Rightarrow> char" where
  "digit_char d = ''0123456789'' ! (d mod 10)"

function str_nat :: "nat \<Rightarrow> string" where
  "str_nat n = (if n < 10 then [digit_char n] else str_nat (n div 10) @ [digit_char (n mod 10)])"
  by pat_completeness auto
termination
  by (relation "measure id") auto

declare str_nat.simps [simp del]

function group_thousands :: "nat \<Rightarrow> string" where
  "group_thousands n =
     (if n < 1000 then str_nat n
      else group_thousands (n div 1000) @ '','' @
           [digit_char (n mod 1000 div 100), digit_char (n mod 100 div 10), digit_char (n mod 10)])"
  by pat_completeness auto
termination
  by (relation "measure id") auto

declare group_thousands.simps [simp del]

definition round_half_even :: "rat \<Rightarrow> int" where
  "round_half_even x =
     (let n = \<lfloor>x\<rfloor>; r = x - of_int n
      in if r < 1 / 2 then n else if 1 / 2 < r then n + 1 else if even n then n else n + 1)"

definition format_2f :: "rat \<Rightarrow> string" where
  "format_2f x =
     (let c = nat (round_half_even (\<bar>x\<bar> * 100))
      in (if x < 0 then ''-'' else []) @ group_thousands (c div 100) @ ''.'' @
         [digit_char (c mod 100 div 10), digit_char (c mod 10)])"

text \<open>
  The report. The entry \<^verbatim>\<open>trends\<close>, which stays the empty dictionary, is left out;
  \<^verbatim>\<open>report_period\<close> holds the two dates of the period string and \<^verbatim>\<open>generated_at\<close> the
  date of the time stamp. \<open>summary = None\<close> is the empty dictionary that \<^verbatim>\<open>summary\<close> is
  initialised to.
\<close>

record summary =
  total_projects :: nat
  total_revenue :: rat
  summary_total_cost :: rat
  total_profit :: rat
  avg_profit_margin :: rat
  summary_total_hours :: rat

record type_entry =
  type_count :: nat
  type_total_profit :: rat
  type_avg_margin :: rat

record status_entry =
  status_count :: nat
  status_avg_margin :: rat

record dept_entry =
  department :: string
  entry_total_hours :: rat
  entry_total_cost :: rat
  avg_projects :: rat

record alert =
  alert_type :: string
  severity :: string
  message :: string

record report =
  report_period :: "date \<times> date"
  generated_at :: date
  summary :: "summary option"
  project_types :: "string option \<rightharpoonup> type_entry"
  project_status :: "string option \<rightharpoonup> status_entry"
  top_departments :: "dept_entry list"
  alerts :: "alert list"

text \<open>\<^verbatim>\<open>float(x) if x else 0\<close> and \<^verbatim>\<open>int(x) if x else 0\<close>: \<^verbatim>\<open>None\<close> and zero are falsy.\<close>

definition float_or_0 :: "rat option \<Rightarrow> rat" where
  "float_or_0 v = (case v of None \<Rightarrow> 0 | Some x \<Rightarrow> if x \<noteq> 0 then x else 0)"

definition int_or_0 :: "nat \<Rightarrow> nat" where
  "int_or_0 n = (if n \<noteq> 0 then n else 0)"

definition summary_dict ::
  "nat \<times> rat option \<times> rat option \<times> rat option \<times> rat option \<times> rat option \<Rightarrow> summary" where
  "summary_dict result =
     (case result of (n, revenue, cost, prof, margin, hours) \<Rightarrow>
        \<lparr>total_projects = int_or_0 n,
         total_revenue = float_or_0 revenue,
         summary_total_cost = float_or_0 cost,
         total_profit = float_or_0 prof,
         avg_profit_margin = float_or_0 margin,
         summary_total_hours = float_or_0 hours\<rparr>)"

text \<open>
  The three loops over \<^verbatim>\<open>fetchall()\<close>. \<^verbatim>\<open>float(None)\<close> raises \<^verbatim>\<open>TypeError\<close>, which the
  handler \<^verbatim>\<open>except Error\<close> does not catch and which leaves the call all the same.
\<close>

fun type_loop ::
  "(string option \<times> nat \<times> rat option \<times> rat option) list
     \<Rightarrow> (string option \<rightharpoonup> type_entry) \<Rightarrow> error + (string option \<rightharpoonup> type_entry)" where
  "type_loop [] d = Inr d"
| "type_loop (row # rows) d =
     (case row of (k, n, p, a) \<Rightarrow>
        (case p of
           None \<Rightarrow> Inl TypeError
         | Some p' \<Rightarrow>
             (case a of
                None \<Rightarrow> Inl TypeError
              | Some a' \<Rightarrow>
                  type_loop rows
                    (d(k \<mapsto> \<lparr>type_count = n, type_total_profit = p', type_avg_margin = a'\<rparr>)))))"

fun status_loop ::
  "(string option \<times> nat \<times> rat option) list
     \<Rightarrow> (string option \<rightharpoonup> status_entry) \<Rightarrow> error + (string option \<rightharpoonup> status_entry)" where
  "status_loop [] d = Inr d"
| "status_loop (row # rows) d =
     (case row of (k, n, a) \<Rightarrow>
        (case a of
           None \<Rightarrow> Inl TypeError
         | Some a' \<Rightarrow>
             status_loop rows (d(k \<mapsto> \<lparr>status_count = n, status_avg_margin = a'\<rparr>))))"

fun dept_loop ::
  "(string \<times> rat option \<times> rat option \<times> rat option) list
     \<Rightarrow> dept_entry list \<Rightarrow> error + dept_entry list" where
  "dept_loop [] acc = Inr acc"
| "dept_loop (row # rows) acc =
     (case row of (k, h, c, a) \<Rightarrow>
        (case h of
           None \<Rightarrow> Inl TypeError
         | Some h' \<Rightarrow>
             (case c of
                None \<Rightarrow> Inl TypeError
              | Some c' \<Rightarrow>
                  (case a of
                     None \<Rightarrow> Inl TypeError
                   | Some a' \<Rightarrow>
                       dept_loop rows
                         (acc @ [\<lparr>department = k, entry_total_hours = h',
                                  entry_total_cost = c', avg_projects = a'\<rparr>])))))"

text \<open>
  The two alert rules. The yen sign of the first message is the character with code
  point 165. \<^verbatim>\<open>abs(None)\<close> raises \<^verbatim>\<open>TypeError\<close>.
\<close>

definition loss_rule :: "(nat \<times> rat option) option \<Rightarrow> error + alert list" where
  "loss_rule loss_result =
     (case loss_result of
        None \<Rightarrow> Inr []
      | Some (n, total_loss) \<Rightarrow>
          if 0 < n then
            (case total_loss of
               None \<Rightarrow> Inl TypeError
             | Some t \<Rightarrow>
                 Inr [\<lparr>alert_type = ''loss_making_projects'',
                       severity = ''high'',
                       message = str_nat n @ '' projects with total loss of '' @
                                 [char_of (165 :: nat)] @ format_2f \<bar>t\<bar>\<rparr>])
          else Inr [])"

definition low_eff_rule :: "nat option \<Rightarrow> alert list" where
  "low_eff_rule eff_result =
     (case eff_result of
        None \<Rightarrow> []
      | Some n \<Rightarrow>
          if 0 < n then
            [\<lparr>alert_type = ''low_efficiency'',
              severity = ''medium'',
              message = str_nat n @ '' projects with low efficiency scores''\<rparr>]
          else [])"

text \<open>
  Sequencing: an exception raised by one step leaves the call, and the steps after it do
  not run.
\<close>

definition and_then :: "error + 'a \<Rightarrow> ('a \<Rightarrow> error + 'b) \<Rightarrow> error + 'b" where
  "and_then step rest = (case step of Inl e \<Rightarrow> Inl e | Inr x \<Rightarrow> rest x)"

text \<open>
  The start of the period defaults to \<^verbatim>\<open>datetime.now().strftime('%Y-%m-01')\<close>, its end
  to today.
\<close>

definition period_start :: "date \<Rightarrow> date option \<Rightarrow> date" where
  "period_start now start_arg =
     (case start_arg of None \<Rightarrow> Date (year now) (month now) 1 | Some d \<Rightarrow> d)"

text \<open>
  \<^verbatim>\<open>generate_automated_report(start_date, end_date)\<close>. The six queries are statements 0
  to 5 of the call. The result is the exception that leaves the call or the report it
  returns.
\<close>

definition generate_automated_report ::
  "bool list \<Rightarrow> date \<Rightarrow> connection \<Rightarrow> date option \<Rightarrow> date option \<Rightarrow> error + report" where
  "generate_automated_report faults now c start_arg end_arg =
     (let start_date = period_start now start_arg;
          end_date = today_if_none now end_arg
      in
      and_then (execute faults 0 (summary_query (fin_visible c) start_date end_date))
        (\<lambda>result.
      and_then (execute faults 1 (type_query (fin_visible c) start_date end_date))
        (\<lambda>type_results.
      and_then (type_loop type_results Map.empty)
        (\<lambda>types.
      and_then (execute faults 2 (status_query (fin_visible c) start_date end_date))
        (\<lambda>status_results.
      and_then (status_loop status_results Map.empty)
        (\<lambda>statuses.
      and_then (execute faults 3 (dept_query (dept_visible c) start_date end_date))
        (\<lambda>dept_results.
      and_then (dept_loop dept_results [])
        (\<lambda>depts.
      and_then (execute faults 4 (loss_query (fin_visible c) start_date end_date))
        (\<lambda>loss_results.
      and_then (loss_rule (fetchone loss_results))
        (\<lambda>loss_alerts.
      and_then (execute faults 5 (low_eff_query (fin_visible c) start_date end_date))
        (\<lambda>eff_results.
          Inr \<lparr>report_period = (start_date, end_date),
               generated_at = now,
               summary = map_option summary_dict (fetchone result),
               project_types = types,
               project_status = statuses,
               top_departments = depts,
               alerts = loss_alerts @ low_eff_rule (fetchone eff_results)\<rparr>)))))))))))"

section \<open>Example data\<close>

text \<open>
  The stored data of the examples: one \<^verbatim>\<open>GS\<close> project with a profit, one \<^verbatim>\<open>ISS\<close> project
  with a loss and no \<^verbatim>\<open>Status\<close> field, and one department, all for 2024-07-01.
\<close>

definition ex_date :: date where
  "ex_date = Date 2024 7 1"

definition ex_gs :: summary_row where
  "ex_gs =
     \<lparr>ProjectCode = ''P1'', ProjectName = Some ''Alpha'', ProjectType = Some ''GS'',
      Status = Some (Some ''Success''), ContractPrice = 1000000, PurchaseCost = 500000,
      LaborCost = Some 200000, TotalCost = 700000, Profit = 300000, ProfitMargin = Some 30,
      TotalHours = Some 200, EfficiencyScore = Some 1500\<rparr>"

definition ex_iss :: summary_row where
  "ex_iss =
     \<lparr>ProjectCode = ''P2'', ProjectName = Some ''Beta'', ProjectType = Some ''ISS'',
      Status = None, ContractPrice = 500000, PurchaseCost = 500000,
      LaborCost = Some 100000, TotalCost = 600000, Profit = - 100000, ProfitMargin = Some (- 20),
      TotalHours = Some 100, EfficiencyScore = Some (- 1000)\<rparr>"

definition ex_dept :: dept_summary_row where
  "ex_dept =
     \<lparr>Department = ''Design'', DeptTotalHours = 300, TotalLaborCost = 300000,
      NumProjects = 2, NumTasks = 5, HourlyRate = 1000\<rparr>"

definition empty_connection :: connection where
  "empty_connection =
     \<lparr>financial_summary = [], department_summary = [],
      fin_uncommitted = [], dept_uncommitted = []\<rparr>"

text \<open>The number of stored rows with one key.\<close>

definition fin_rows_with_key :: "date \<Rightarrow> string \<Rightarrow> fin_row list \<Rightarrow> nat" where
  "fin_rows_with_key d code rows =
     length (filter (\<lambda>r. report_date r = d \<and> project_code r = code) rows)"

definition dept_rows_with_key :: "date \<Rightarrow> string \<Rightarrow> dept_row list \<Rightarrow> nat" where
  "dept_rows_with_key d name rows =
     length (filter (\<lambda>r. dept_report_date r = d \<and> department_name r = name) rows)"

text \<open>The batch of the example stored once, and stored a second time.\<close>

definition ex_stored_fin :: connection where
  "ex_stored_fin =
     snd (insert_financial_summary [] ex_date empty_connection [ex_gs, ex_iss] (Some ex_date))"

definition ex_stored_once :: connection where
  "ex_stored_once =
     snd (insert_department_summary [] ex_date ex_stored_fin [ex_dept] (Some ex_date))"

definition ex_stored_fin_again :: connection where
  "ex_stored_fin_again =
     snd (insert_financial_summary [] ex_date ex_stored_once [ex_gs, ex_iss] (Some ex_date))"

definition ex_stored_twice :: connection where
  "ex_stored_twice =
     snd (insert_department_summary [] ex_date ex_stored_fin_again [ex_dept] (Some ex_date))"

text \<open>
  The example after the financial insert has returned and the \<^verbatim>\<open>executemany\<close> of the
  department insert has raised.
\<close>

definition ex_half_stored :: connection where
  "ex_half_stored =
     snd (insert_department_summary [True] ex_date ex_stored_fin [ex_dept] (Some ex_date))"

text \<open>
  The report of the example for the period from 2024-07-01 to 2024-07-01, which is also the
  default period on that day.
\<close>

definition ex_report :: report where
  "ex_report =
     \<lparr>report_period = (ex_date, ex_date),
      generated_at = ex_date,
      summary = Some \<lparr>total_projects = 2, total_revenue = 1500000,
                      summary_total_cost = 1300000, total_profit = 200000,
                      avg_profit_margin = 5, summary_total_hours = 300\<rparr>,
      project_types =
        [Some ''GS'' \<mapsto> \<lparr>type_count = 1, type_total_profit = 300000, type_avg_margin = 30\<rparr>,
         Some ''ISS'' \<mapsto>
           \<lparr>type_count = 1, type_total_profit = - 100000, type_avg_margin = - 20\<rparr>],
      project_status = [Some ''Success'' \<mapsto> \<lparr>status_count = 1, status_avg_margin = 30\<rparr>],
      top_departments =
        [\<lparr>department = ''Design'', entry_total_hours = 300, entry_total_cost = 300000,
          avg_projects = 2\<rparr>],
      alerts =
        [\<lparr>alert_type = ''loss_making_projects'', severity = ''high'',
          message = ''1 projects with total loss of '' @ [char_of (165 :: nat)] @ ''100,000.00''\<rparr>,
         \<lparr>alert_type = ''low_efficiency'', severity = ''medium'',
          message = ''1 projects with low efficiency scores''\<rparr>]\<rparr>"

text \<open>
  Two projects with contract price 0, whose margin is undefined: one of type \<^verbatim>\<open>GS\<close> and
  one of type \<^verbatim>\<open>ISS\<close>. The example with the \<^verbatim>\<open>GS\<close> project of above alone, with the
  zero-price \<^verbatim>\<open>GS\<close> project stored after it, and with the zero-price \<^verbatim>\<open>ISS\<close> project
  stored after it.
\<close>

definition ex_zero :: summary_row where
  "ex_zero =
     \<lparr>ProjectCode = ''P3'', ProjectName = Some ''Gamma'', ProjectType = Some ''GS'',
      Status = Some (Some ''Success''), ContractPrice = 0, PurchaseCost = 0,
      LaborCost = Some 0, TotalCost = 0, Profit = 0, ProfitMargin = None,
      TotalHours = Some 0, EfficiencyScore = Some 0\<rparr>"

definition ex_zero_iss :: summary_row where
  "ex_zero_iss =
     \<lparr>ProjectCode = ''P4'', ProjectName = Some ''Delta'', ProjectType = Some ''ISS'',
      Status = None, ContractPrice = 0, PurchaseCost = 0,
      LaborCost = Some 0, TotalCost = 0, Profit = 0, ProfitMargin = None,
      TotalHours = Some 0, EfficiencyScore = Some 0\<rparr>"

definition ex_stored_gs :: connection where
  "ex_stored_gs = snd (insert_financial_summary [] ex_date empty_connection [ex_gs] None)"

definition ex_stored_zero :: connection where
  "ex_stored_zero = snd (insert_financial_summary [] ex_date ex_stored_gs [ex_zero] None)"

definition ex_stored_alone :: connection where
  "ex_stored_alone = snd (insert_financial_summary [] ex_date ex_stored_gs [ex_zero_iss] None)"

text \<open>
  The report of the \<^verbatim>\<open>GS\<close> project alone, and the report with the zero-price \<^verbatim>\<open>GS\<close>
  project stored as well.
\<close>

definition ex_report_gs :: report where
  "ex_report_gs =
     \<lparr>report_period = (ex_date, ex_date),
      generated_at = ex_date,
      summary = Some \<lparr>total_projects = 1, total_revenue = 1000000,
                      summary_total_cost = 700000, total_profit = 300000,
                      avg_profit_margin = 30, summary_total_hours = 200\<rparr>,
      project_types =
        [Some ''GS'' \<mapsto> \<lparr>type_count = 1, type_total_profit = 300000, type_avg_margin = 30\<rparr>],
      project_status = [Some ''Success'' \<mapsto> \<lparr>status_count = 1, status_avg_margin = 30\<rparr>],
      top_departments = [],
      alerts = []\<rparr>"

definition ex_report_zero :: report where
  "ex_report_zero =
     \<lparr>report_period = (ex_date, ex_date),
      generated_at = ex_date,
      summary = Some \<lparr>total_projects = 2, total_revenue = 1000000,
                      summary_total_cost = 700000, total_profit = 300000,
                      avg_profit_margin = 30, summary_total_hours = 200\<rparr>,
      project_types =
        [Some ''GS'' \<mapsto> \<lparr>type_count = 2, type_total_profit = 300000, type_avg_margin = 30\<rparr>],
      project_status = [Some ''Success'' \<mapsto> \<lparr>status_count = 2, status_avg_margin = 30\<rparr>],
      top_departments = [],
      alerts = []\<rparr>"

text \<open>A project whose \<^verbatim>\<open>Status\<close> field is present and holds \<^verbatim>\<open>None\<close>, and the table with it.\<close>

definition ex_null_status :: summary_row where
  "ex_null_status =
     \<lparr>ProjectCode = ''P5'', ProjectName = Some ''Epsilon'', ProjectType = Some ''GS'',
      Status = Some None, ContractPrice = 1000, PurchaseCost = 500,
      LaborCost = Some 100, TotalCost = 600, Profit = 400, ProfitMargin = Some 40,
      TotalHours = Some 10, EfficiencyScore = Some 40\<rparr>"

definition ex_stored_null_status :: connection where
  "ex_stored_null_status =
     snd (insert_financial_summary [] ex_date empty_connection [ex_null_status] None)"

text \<open>The row of \<^verbatim>\<open>dept_query\<close> from which an entry of the report is built.\<close>

definition entry_row :: "dept_entry \<Rightarrow> string \<times> rat option \<times> rat option \<times> rat option" where
  "entry_row entry =
     (department entry, Some (entry_total_hours entry), Some (entry_total_cost entry),
      Some (avg_projects entry))"

text \<open>
  Eleven departments with 10, 20, ..., 110 hours on 2024-07-01 and no project, and the
  report of that table.
\<close>

definition ex_dept_row_of :: "string \<Rightarrow> rat \<Rightarrow> dept_row" where
  "ex_dept_row_of name h =
     \<lparr>dept_report_date = ex_date, department_name = name, dept_total_hours = Some h,
      total_labor_cost = Some (10 * h), num_projects = Some 1, num_tasks = Some 1,
      avg_hourly_rate = Some 10\<rparr>"

definition ex_eleven_rows :: "dept_row list" where
  "ex_eleven_rows =
     [ex_dept_row_of ''D01'' 10, ex_dept_row_of ''D02'' 20, ex_dept_row_of ''D03'' 30,
      ex_dept_row_of ''D04'' 40, ex_dept_row_of ''D05'' 50, ex_dept_row_of ''D06'' 60,
      ex_dept_row_of ''D07'' 70, ex_dept_row_of ''D08'' 80, ex_dept_row_of ''D09'' 90,
      ex_dept_row_of ''D10'' 100, ex_dept_row_of ''D11'' 110]"

definition ex_eleven :: connection where
  "ex_eleven =
     \<lparr>financial_summary = [], department_summary = ex_eleven_rows,
      fin_uncommitted = [], dept_uncommitted = []\<rparr>"

definition ex_entry_of :: "string \<Rightarrow> rat \<Rightarrow> dept_entry" where
  "ex_entry_of name h =
     \<lparr>department = name, entry_total_hours = h, entry_total_cost = 10 * h, avg_projects = 1\<rparr>"

definition ex_report_eleven :: report where
  "ex_report_eleven =
     \<lparr>report_period = (ex_date, ex_date),
      generated_at = ex_date,
      summary = Some \<lparr>total_projects = 0, total_revenue = 0, summary_total_cost = 0,
                      total_profit = 0, avg_profit_margin = 0, summary_total_hours = 0\<rparr>,
      project_types = Map.empty,
      project_status = Map.empty,
      top_departments =
        [ex_entry_of ''D11'' 110, ex_entry_of ''D10'' 100, ex_entry_of ''D09'' 90,
         ex_entry_of ''D08'' 80, ex_entry_of ''D07'' 70, ex_entry_of ''D06'' 60,
         ex_entry_of ''D05'' 50, ex_entry_of ''D04'' 40, ex_entry_of ''D03'' 30,
         ex_entry_of ''D02'' 20],
      alerts = []\<rparr>"

section \<open>Basic facts\<close>

lemma and_then_Inr: "and_then m f = Inr y \<longleftrightarrow> (\<exists>x. m = Inr x \<and> f x = Inr y)"
  by (cases m) (simp_all add: and_then_def)

lemma execute_Inr: "execute faults k res = Inr x \<longleftrightarrow> \<not> raises faults k \<and> x = res"
  by (auto simp: execute_def)

lemma execute_ok: "\<not> raises faults k \<Longrightarrow> execute faults k res = Inr res"
  by (simp add: execute_def)

lemma and_then_ok: "and_then (Inr x) f = f x"
  by (simp add: and_then_def)

lemma raises_Nil: "\<not> raises [] k"
  by (simp add: raises_def)

lemma insert_fin_result:
  "insert_financial_summary faults now c df da =
     (if raises faults 0 \<or> raises faults 1 then (Some MySQLError, rollback c)
      else (None, commit (c\<lparr>fin_uncommitted :=
              fin_uncommitted c @ map (fin_tuple (today_if_none now da)) df\<rparr>)))"
  by (simp add: insert_financial_summary_def Let_def rollback_def)

lemma insert_dept_result:
  "insert_department_summary faults now c df da =
     (if raises faults 0 \<or> raises faults 1 then (Some MySQLError, rollback c)
      else (None, commit (c\<lparr>dept_uncommitted :=
              dept_uncommitted c @ map (dept_tuple (today_if_none now da)) df\<rparr>)))"
  by (simp add: insert_department_summary_def Let_def rollback_def)

lemma ex_stored_fin_eq:
  "ex_stored_fin =
     \<lparr>financial_summary = [fin_tuple ex_date ex_gs, fin_tuple ex_date ex_iss],
      department_summary = [], fin_uncommitted = [], dept_uncommitted = []\<rparr>"
  by (simp add: ex_stored_fin_def insert_fin_result raises_Nil commit_def empty_connection_def
      today_if_none_def)

lemma ex_stored_once_eq:
  "ex_stored_once =
     \<lparr>financial_summary = [fin_tuple ex_date ex_gs, fin_tuple ex_date ex_iss],
      department_summary = [dept_tuple ex_date ex_dept],
      fin_uncommitted = [], dept_uncommitted = []\<rparr>"
  by (simp add: ex_stored_once_def ex_stored_fin_eq insert_dept_result raises_Nil commit_def
      today_if_none_def)

lemma ex_stored_fin_again_eq:
  "ex_stored_fin_again =
     \<lparr>financial_summary = [fin_tuple ex_date ex_gs, fin_tuple ex_date ex_iss,
                           fin_tuple ex_date ex_gs, fin_tuple ex_date ex_iss],
      department_summary = [dept_tuple ex_date ex_dept],
      fin_uncommitted = [], dept_uncommitted = []\<rparr>"
  by (simp add: ex_stored_fin_again_def ex_stored_once_eq insert_fin_result raises_Nil commit_def
      today_if_none_def)

lemma ex_stored_twice_eq:
  "ex_stored_twice =
     \<lparr>financial_summary = [fin_tuple ex_date ex_gs, fin_tuple ex_date ex_iss,
                           fin_tuple ex_date ex_gs, fin_tuple ex_date ex_iss],
      department_summary = [dept_tuple ex_date ex_dept, dept_tuple ex_date ex_dept],
      fin_uncommitted = [], dept_uncommitted = []\<rparr>"
  by (simp add: ex_stored_twice_def ex_stored_fin_again_eq insert_dept_result raises_Nil
      commit_def today_if_none_def)

section \<open>Storing a batch twice\<close>

text \<open>
  C1, as claimed: storing the batch for a report date a second time is either rejected or
  leaves one row per key. The code does neither. In the example the second pair of
  calls returns normally, and afterwards the key (2024-07-01, P1) and the key
  (2024-07-01, Design) have two rows each.
\<close>

theorem store_twice_counterexample:
  "fst (insert_financial_summary [] ex_date ex_stored_once [ex_gs, ex_iss] (Some ex_date)) = None
   \<and> fst (insert_department_summary [] ex_date ex_stored_fin_again [ex_dept] (Some ex_date)) = None
   \<and> fin_rows_with_key ex_date ''P1'' (financial_summary ex_stored_twice) = 2
   \<and> dept_rows_with_key ex_date ''Design'' (department_summary ex_stored_twice) = 2"
  by (simp add: insert_fin_result insert_dept_result raises_Nil ex_stored_twice_eq
      fin_rows_with_key_def dept_rows_with_key_def fin_tuple_def dept_tuple_def
      ex_gs_def ex_iss_def ex_dept_def)

text \<open>
  C1, amended: neither insert looks at the rows already stored. A call returns normally
  exactly when none of its two statements raises, whatever the table holds, and after
  the two inserts have returned normally twice with the same frames and date, both tables
  hold their earlier rows followed by two copies of the batch.
\<close>

theorem store_twice_appends_twice:
  "(fst (insert_financial_summary f now c df da) = None
      \<longleftrightarrow> \<not> raises f 0 \<and> \<not> raises f 1)
   \<and> (fst (insert_department_summary f now c ddf da) = None
      \<longleftrightarrow> \<not> raises f 0 \<and> \<not> raises f 1)
   \<and> (insert_financial_summary f1 now c df da = (None, c1)
      \<and> insert_department_summary f2 now c1 ddf da = (None, c2)
      \<and> insert_financial_summary f3 now c2 df da = (None, c3)
      \<and> insert_department_summary f4 now c3 ddf da = (None, c4)
      \<longrightarrow> financial_summary c4 =
            financial_summary c @ fin_uncommitted c
              @ map (fin_tuple (today_if_none now da)) df
              @ map (fin_tuple (today_if_none now da)) df
          \<and> department_summary c4 =
            department_summary c @ dept_uncommitted c
              @ map (dept_tuple (today_if_none now da)) ddf
              @ map (dept_tuple (today_if_none now da)) ddf)"
proof (intro conjI impI)
  show "fst (insert_financial_summary f now c df da) = None
          \<longleftrightarrow> \<not> raises f 0 \<and> \<not> raises f 1"
    by (simp add: insert_fin_result)
  show "fst (insert_department_summary f now c ddf da) = None
          \<longleftrightarrow> \<not> raises f 0 \<and> \<not> raises f 1"
    by (simp add: insert_dept_result)
next
  assume a: "insert_financial_summary f1 now c df da = (None, c1)
      \<and> insert_department_summary f2 now c1 ddf da = (None, c2)
      \<and> insert_financial_summary f3 now c2 df da = (None, c3)
      \<and> insert_department_summary f4 now c3 ddf da = (None, c4)"
  let ?B = "map (fin_tuple (today_if_none now da)) df"
  let ?D = "map (dept_tuple (today_if_none now da)) ddf"
  from a have c1: "c1 = commit (c\<lparr>fin_uncommitted := fin_uncommitted c @ ?B\<rparr>)"
    by (auto simp: insert_fin_result split: if_splits)
  from a have c2: "c2 = commit (c1\<lparr>dept_uncommitted := dept_uncommitted c1 @ ?D\<rparr>)"
    by (auto simp: insert_dept_result split: if_splits)
  from a have c3: "c3 = commit (c2\<lparr>fin_uncommitted := fin_uncommitted c2 @ ?B\<rparr>)"
    by (auto simp: insert_fin_result split: if_splits)
  from a have c4: "c4 = commit (c3\<lparr>dept_uncommitted := dept_uncommitted c3 @ ?D\<rparr>)"
    by (auto simp: insert_dept_result split: if_splits)
  show "financial_summary c4 = financial_summary c @ fin_uncommitted c @ ?B @ ?B"
    by (simp add: c1 c2 c3 c4 commit_def)
  show "department_summary c4 = department_summary c @ dept_uncommitted c @ ?D @ ?D"
    by (simp add: c1 c2 c3 c4 commit_def)
qed

theorem store_twice_appends_twice_witness:
  "financial_summary ex_stored_twice =
     [fin_tuple ex_date ex_gs, fin_tuple ex_date ex_iss]
       @ [fin_tuple ex_date ex_gs, fin_tuple ex_date ex_iss]
   \<and> department_summary ex_stored_twice =
     [dept_tuple ex_date ex_dept] @ [dept_tuple ex_date ex_dept]"
proof -
  have 1: "insert_financial_summary [] ex_date empty_connection [ex_gs, ex_iss] (Some ex_date)
             = (None, ex_stored_fin)"
    by (simp add: ex_stored_fin_def insert_fin_result raises_Nil)
  have 2: "insert_department_summary [] ex_date ex_stored_fin [ex_dept] (Some ex_date)
             = (None, ex_stored_once)"
    by (simp add: ex_stored_once_def insert_dept_result raises_Nil)
  have 3: "insert_financial_summary [] ex_date ex_stored_once [ex_gs, ex_iss] (Some ex_date)
             = (None, ex_stored_fin_again)"
    by (simp add: ex_stored_fin_again_def insert_fin_result raises_Nil)
  have 4: "insert_department_summary [] ex_date ex_stored_fin_again [ex_dept] (Some ex_date)
             = (None, ex_stored_twice)"
    by (simp add: ex_stored_twice_def insert_dept_result raises_Nil)
  from store_twice_appends_twice
    [of "[]" ex_date empty_connection "[ex_gs, ex_iss]" "Some ex_date" "[ex_dept]"
        "[]" ex_stored_fin "[]" ex_stored_once "[]" ex_stored_fin_again "[]" ex_stored_twice]
    1 2 3 4
  show ?thesis
    by (simp add: empty_connection_def today_if_none_def)
qed

lemma report_sections:
  assumes "generate_automated_report faults now c sa ea = Inr r"
  shows "\<not> raises faults 0 \<and> \<not> raises faults 1 \<and> \<not> raises faults 2
         \<and> \<not> raises faults 3 \<and> \<not> raises faults 4 \<and> \<not> raises faults 5"
    and "report_period r = (period_start now sa, today_if_none now ea)"
    and "generated_at r = now"
    and "summary r = map_option summary_dict
           (fetchone (summary_query (fin_visible c) (period_start now sa) (today_if_none now ea)))"
    and "type_loop (type_query (fin_visible c) (period_start now sa) (today_if_none now ea))
           Map.empty = Inr (project_types r)"
    and "status_loop (status_query (fin_visible c) (period_start now sa) (today_if_none now ea))
           Map.empty = Inr (project_status r)"
    and "dept_loop (dept_query (dept_visible c) (period_start now sa) (today_if_none now ea)) []
           = Inr (top_departments r)"
    and "\<exists>la. loss_rule (fetchone (loss_query (fin_visible c) (period_start now sa)
                 (today_if_none now ea))) = Inr la
             \<and> alerts r = la @ low_eff_rule (fetchone (low_eff_query (fin_visible c)
                 (period_start now sa) (today_if_none now ea)))"
  using assms
  unfolding generate_automated_report_def Let_def and_then_Inr execute_Inr
  by auto

lemma raises_below_6:
  assumes "k < 6" and "raises faults k"
  shows "raises faults 0 \<or> raises faults 1 \<or> raises faults 2
         \<or> raises faults 3 \<or> raises faults 4 \<or> raises faults 5"
proof -
  from assms(1) have "k = 0 \<or> k = 1 \<or> k = 2 \<or> k = 3 \<or> k = 4 \<or> k = 5"
    by arith
  with assms(2) show ?thesis
    by auto
qed

lemma insert_fin_raises:
  "insert_financial_summary f now c df da = (Some e, c') \<Longrightarrow> c' = rollback c"
  by (simp add: insert_fin_result split: if_splits)

lemma insert_fin_returns:
  "insert_financial_summary f now c df da = (None, c') \<Longrightarrow>
     c' = commit (c\<lparr>fin_uncommitted :=
            fin_uncommitted c @ map (fin_tuple (today_if_none now da)) df\<rparr>)"
  by (simp add: insert_fin_result split: if_splits)

lemma insert_dept_raises:
  "insert_department_summary f now c df da = (Some e, c') \<Longrightarrow> c' = rollback c"
  by (simp add: insert_dept_result split: if_splits)

lemma insert_dept_returns:
  "insert_department_summary f now c df da = (None, c') \<Longrightarrow>
     c' = commit (c\<lparr>dept_uncommitted :=
            dept_uncommitted c @ map (dept_tuple (today_if_none now da)) df\<rparr>)"
  by (simp add: insert_dept_result split: if_splits)

lemma rollback_fields:
  "financial_summary (rollback c) = financial_summary c"
  "department_summary (rollback c) = department_summary c"
  "fin_uncommitted (rollback c) = []"
  "dept_uncommitted (rollback c) = []"
  by (simp_all add: rollback_def)

lemma commit_fields:
  "financial_summary (commit c) = financial_summary c @ fin_uncommitted c"
  "department_summary (commit c) = department_summary c @ dept_uncommitted c"
  "fin_uncommitted (commit c) = []"
  "dept_uncommitted (commit c) = []"
  by (simp_all add: commit_def)

lemma ex_half_stored_eq:
  "ex_half_stored =
     \<lparr>financial_summary = [fin_tuple ex_date ex_gs, fin_tuple ex_date ex_iss],
      department_summary = [], fin_uncommitted = [], dept_uncommitted = []\<rparr>"
  by (simp add: ex_half_stored_def ex_stored_fin_eq insert_dept_result raises_def rollback_def)

section \<open>Atomicity of the write path\<close>

text \<open>
  C2, as claimed: the financial rows and the department rows of one report date become
  visible together or not at all. In the example the financial insert returns, the
  \<^verbatim>\<open>executemany\<close> of the department insert raises, and the store is left with the
  financial rows of 2024-07-01 committed and no department row.
\<close>

theorem half_committed_counterexample:
  "fst (insert_financial_summary [] ex_date empty_connection [ex_gs, ex_iss] (Some ex_date)) = None
   \<and> fst (insert_department_summary [True] ex_date ex_stored_fin [ex_dept] (Some ex_date))
       = Some MySQLError
   \<and> fin_rows_with_key ex_date ''P1'' (financial_summary ex_half_stored) = 1
   \<and> fin_rows_with_key ex_date ''P2'' (financial_summary ex_half_stored) = 1
   \<and> department_summary ex_half_stored = []"
  by (simp add: insert_fin_result insert_dept_result raises_def ex_half_stored_eq
      fin_rows_with_key_def fin_tuple_def ex_gs_def ex_iss_def)

text \<open>
  C2, amended: each insert is a transaction of its own. A call that raises leaves the
  committed rows of both tables as they were and nothing uncommitted; a call that returns
  has committed all rows of its frame, after the rows the connection had written before.
  So the rows of a frame become visible all or none, and the financial rows stay
  committed when the department insert for the same date fails.
\<close>

theorem each_insert_is_atomic:
  "(insert_financial_summary f1 now c df da = (Some e1, c1)
      \<longrightarrow> financial_summary c1 = financial_summary c
        \<and> department_summary c1 = department_summary c
        \<and> fin_uncommitted c1 = [] \<and> dept_uncommitted c1 = [])
   \<and> (insert_financial_summary f2 now c df da = (None, c2)
      \<longrightarrow> financial_summary c2 =
            financial_summary c @ fin_uncommitted c @ map (fin_tuple (today_if_none now da)) df
        \<and> department_summary c2 = department_summary c @ dept_uncommitted c
        \<and> fin_uncommitted c2 = [] \<and> dept_uncommitted c2 = [])
   \<and> (insert_department_summary f3 now c ddf da = (Some e3, c3)
      \<longrightarrow> financial_summary c3 = financial_summary c
        \<and> department_summary c3 = department_summary c
        \<and> fin_uncommitted c3 = [] \<and> dept_uncommitted c3 = [])
   \<and> (insert_department_summary f4 now c ddf da = (None, c4)
      \<longrightarrow> financial_summary c4 = financial_summary c @ fin_uncommitted c
        \<and> department_summary c4 =
            department_summary c @ dept_uncommitted c
              @ map (dept_tuple (today_if_none now da)) ddf
        \<and> fin_uncommitted c4 = [] \<and> dept_uncommitted c4 = [])"
proof (intro conjI impI)
  assume "insert_financial_summary f1 now c df da = (Some e1, c1)"
  then have "c1 = rollback c"
    by (rule insert_fin_raises)
  then show "financial_summary c1 = financial_summary c"
    and "department_summary c1 = department_summary c"
    and "fin_uncommitted c1 = []" and "dept_uncommitted c1 = []"
    by (simp_all add: rollback_fields)
next
  assume "insert_financial_summary f2 now c df da = (None, c2)"
  then have "c2 = commit (c\<lparr>fin_uncommitted :=
      fin_uncommitted c @ map (fin_tuple (today_if_none now da)) df\<rparr>)"
    by (rule insert_fin_returns)
  then show "financial_summary c2 =
      financial_summary c @ fin_uncommitted c @ map (fin_tuple (today_if_none now da)) df"
    and "department_summary c2 = department_summary c @ dept_uncommitted c"
    and "fin_uncommitted c2 = []" and "dept_uncommitted c2 = []"
    by (simp_all add: commit_fields)
next
  assume "insert_department_summary f3 now c ddf da = (Some e3, c3)"
  then have "c3 = rollback c"
    by (rule insert_dept_raises)
  then show "financial_summary c3 = financial_summary c"
    and "department_summary c3 = department_summary c"
    and "fin_uncommitted c3 = []" and "dept_uncommitted c3 = []"
    by (simp_all add: rollback_fields)
next
  assume "insert_department_summary f4 now c ddf da = (None, c4)"
  then have "c4 = commit (c\<lparr>dept_uncommitted :=
      dept_uncommitted c @ map (dept_tuple (today_if_none now da)) ddf\<rparr>)"
    by (rule insert_dept_returns)
  then show "financial_summary c4 = financial_summary c @ fin_uncommitted c"
    and "department_summary c4 =
      department_summary c @ dept_uncommitted c @ map (dept_tuple (today_if_none now da)) ddf"
    and "fin_uncommitted c4 = []" and "dept_uncommitted c4 = []"
    by (simp_all add: commit_fields)
qed

theorem each_insert_is_atomic_witness:
  "financial_summary (snd (insert_financial_summary [True] ex_date ex_stored_fin [ex_gs] None))
     = financial_summary ex_stored_fin
   \<and> financial_summary (snd (insert_financial_summary [] ex_date ex_stored_fin [ex_gs] None))
     = financial_summary ex_stored_fin @ [fin_tuple ex_date ex_gs]
   \<and> department_summary ex_half_stored = department_summary ex_stored_fin
   \<and> financial_summary ex_half_stored = financial_summary ex_stored_fin
   \<and> department_summary ex_stored_once
     = department_summary ex_stored_fin @ [dept_tuple ex_date ex_dept]"
proof -
  have 1: "insert_financial_summary [True] ex_date ex_stored_fin [ex_gs] None
             = (Some MySQLError,
                snd (insert_financial_summary [True] ex_date ex_stored_fin [ex_gs] None))"
    by (simp add: insert_fin_result raises_def)
  have 2: "insert_financial_summary [] ex_date ex_stored_fin [ex_gs] None
             = (None, snd (insert_financial_summary [] ex_date ex_stored_fin [ex_gs] None))"
    by (simp add: insert_fin_result raises_def)
  have 3: "insert_department_summary [True] ex_date ex_stored_fin [ex_dept] (Some ex_date)
             = (Some MySQLError, ex_half_stored)"
    by (simp add: ex_half_stored_def insert_dept_result raises_def)
  have 4: "insert_department_summary [] ex_date ex_stored_fin [ex_dept] (Some ex_date)
             = (None, ex_stored_once)"
    by (simp add: ex_stored_once_def insert_dept_result raises_def)
  have fin: "financial_summary (snd (insert_financial_summary [True] ex_date ex_stored_fin [ex_gs] None))
       = financial_summary ex_stored_fin
     \<and> financial_summary (snd (insert_financial_summary [] ex_date ex_stored_fin [ex_gs] None))
       = financial_summary ex_stored_fin @ [fin_tuple ex_date ex_gs]"
    using each_insert_is_atomic
      [of "[True]" ex_date ex_stored_fin "[ex_gs]" None MySQLError
          "snd (insert_financial_summary [True] ex_date ex_stored_fin [ex_gs] None)"
          "[]" "snd (insert_financial_summary [] ex_date ex_stored_fin [ex_gs] None)"]
      1 2
    by (simp add: ex_stored_fin_eq today_if_none_def)
  have dept: "department_summary ex_half_stored = department_summary ex_stored_fin
     \<and> financial_summary ex_half_stored = financial_summary ex_stored_fin
     \<and> department_summary ex_stored_once
       = department_summary ex_stored_fin @ [dept_tuple ex_date ex_dept]"
    using each_insert_is_atomic
      [of _ ex_date ex_stored_fin _ "Some ex_date" _ _ _ _
          "[True]" "[ex_dept]" MySQLError ex_half_stored "[]" ex_stored_once]
      3 4
    by (simp add: ex_stored_fin_eq today_if_none_def)
  from fin dept show ?thesis
    by simp
qed

section \<open>Failure of a read query\<close>

text \<open>
  C7: when one of the six queries of \<^verbatim>\<open>generate_automated_report\<close> raises, the call ends
  with an exception and returns no report. A report that is returned was built after
  all six queries had succeeded, and its summary section is filled.
\<close>

theorem query_failure_fails_the_call:
  "((\<exists>k<6. raises faults k) \<longrightarrow> isl (generate_automated_report faults now c sa ea))
   \<and> (\<forall>r. generate_automated_report faults now c sa ea = Inr r
        \<longrightarrow> (\<forall>k<6. \<not> raises faults k) \<and> summary r \<noteq> None)"
proof (rule conjI)
  show "(\<exists>k<6. raises faults k) \<longrightarrow> isl (generate_automated_report faults now c sa ea)"
  proof
    assume "\<exists>k<6. raises faults k"
    then obtain k where k: "k < 6" "raises faults k"
      by blast
    show "isl (generate_automated_report faults now c sa ea)"
    proof (cases "generate_automated_report faults now c sa ea")
      case (Inl e)
      then show ?thesis by simp
    next
      case (Inr r)
      from report_sections(1) [OF Inr] raises_below_6 [OF k] show ?thesis
        by blast
    qed
  qed
  show "\<forall>r. generate_automated_report faults now c sa ea = Inr r
        \<longrightarrow> (\<forall>k<6. \<not> raises faults k) \<and> summary r \<noteq> None"
  proof (intro allI impI)
    fix r
    assume r: "generate_automated_report faults now c sa ea = Inr r"
    have "\<forall>k<6. \<not> raises faults k"
      using report_sections(1) [OF r] raises_below_6 by blast
    moreover have "summary r \<noteq> None"
      using report_sections(4) [OF r]
      by (simp add: summary_query_def Let_def fetchone_def)
    ultimately show "(\<forall>k<6. \<not> raises faults k) \<and> summary r \<noteq> None"
      by simp
  qed
qed

theorem query_failure_fails_the_call_witness:
  "raises [False, False, True] 2
   \<and> isl (generate_automated_report [False, False, True] ex_date ex_stored_once None None)"
proof -
  have r: "raises [False, False, True] 2"
    by (simp add: raises_def)
  then have "\<exists>k<6. raises [False, False, True] k"
    by (intro exI [of _ 2]) simp
  with query_failure_fails_the_call
    [of "[False, False, True]" ex_date ex_stored_once None None] r
  show ?thesis
    by blast
qed

section \<open>A period without rows\<close>

lemma filter_between_empty:
  assumes "\<forall>row\<in>set rows. \<not> (date_le s (d row) \<and> date_le (d row) e)"
  shows "filter (\<lambda>r. between (d r) s e) rows = []"
    and "filter (\<lambda>r. between (d r) s e \<and> Q r) rows = []"
  using assms by (auto simp: filter_empty_conv between_def)

lemma queries_of_empty_period:
  assumes "\<forall>row\<in>set rows. \<not> (date_le s (report_date row) \<and> date_le (report_date row) e)"
  shows "summary_query rows s e = [(0, None, None, None, None, None)]"
    and "type_query rows s e = []"
    and "status_query rows s e = []"
    and "loss_query rows s e = [(0, None)]"
    and "low_eff_query rows s e = [0]"
  by (simp_all add: summary_query_def type_query_def status_query_def loss_query_def
      low_eff_query_def filter_between_empty [OF assms] Let_def count_distinct_def
      sql_sum_def sql_avg_def group_keys_def)

lemma dept_query_of_empty_period:
  assumes "\<forall>row\<in>set rows.
             \<not> (date_le s (dept_report_date row) \<and> date_le (dept_report_date row) e)"
  shows "dept_query rows s e = []"
  by (simp add: dept_query_def dept_groups_def filter_between_empty [OF assms] Let_def
      group_keys_def)

text \<open>
  C9: when no stored row of either table has its report date in the period and no query
  raises, \<^verbatim>\<open>generate_automated_report\<close> returns a report: all six fields of the summary
  are 0, the breakdowns by type and by status and the list of departments are empty, and
  there is no alert.
\<close>

theorem empty_period_report:
  assumes "\<forall>row\<in>set (fin_visible c).
             \<not> (date_le (period_start now sa) (report_date row)
                \<and> date_le (report_date row) (today_if_none now ea))"
    and "\<forall>row\<in>set (dept_visible c).
             \<not> (date_le (period_start now sa) (dept_report_date row)
                \<and> date_le (dept_report_date row) (today_if_none now ea))"
    and "\<forall>k<6. \<not> raises faults k"
  shows "generate_automated_report faults now c sa ea =
           Inr \<lparr>report_period = (period_start now sa, today_if_none now ea),
                generated_at = now,
                summary = Some \<lparr>total_projects = 0, total_revenue = 0, summary_total_cost = 0,
                                total_profit = 0, avg_profit_margin = 0,
                                summary_total_hours = 0\<rparr>,
                project_types = Map.empty,
                project_status = Map.empty,
                top_departments = [],
                alerts = []\<rparr>"
proof -
  from assms(3) have ok: "\<not> raises faults 0" "\<not> raises faults 1" "\<not> raises faults 2"
    "\<not> raises faults 3" "\<not> raises faults 4" "\<not> raises faults 5"
    by simp_all
  from ok(2) have ok1: "\<not> raises faults (Suc 0)"
    by simp
  show ?thesis
    unfolding generate_automated_report_def Let_def
    by (simp add: queries_of_empty_period [OF assms(1)] dept_query_of_empty_period [OF assms(2)]
        execute_ok ok ok1 and_then_ok fetchone_def summary_dict_def int_or_0_def float_or_0_def
        loss_rule_def low_eff_rule_def)
qed

lemma ex_stored_once_visible:
  "fin_visible ex_stored_once = [fin_tuple ex_date ex_gs, fin_tuple ex_date ex_iss]"
  "dept_visible ex_stored_once = [dept_tuple ex_date ex_dept]"
  by (simp_all add: ex_stored_once_eq fin_visible_def dept_visible_def)

theorem empty_period_report_witness:
  "generate_automated_report [] ex_date ex_stored_once (Some (Date 2025 1 1)) (Some (Date 2025 1 31)) =
     Inr \<lparr>report_period = (Date 2025 1 1, Date 2025 1 31),
          generated_at = ex_date,
          summary = Some \<lparr>total_projects = 0, total_revenue = 0, summary_total_cost = 0,
                          total_profit = 0, avg_profit_margin = 0, summary_total_hours = 0\<rparr>,
          project_types = Map.empty,
          project_status = Map.empty,
          top_departments = [],
          alerts = []\<rparr>"
proof -
  have 1: "\<forall>row\<in>set (fin_visible ex_stored_once).
             \<not> (date_le (period_start ex_date (Some (Date 2025 1 1))) (report_date row)
                \<and> date_le (report_date row) (today_if_none ex_date (Some (Date 2025 1 31))))"
    by (simp add: ex_stored_once_visible fin_tuple_def ex_date_def date_le_def
        period_start_def today_if_none_def)
  have 2: "\<forall>row\<in>set (dept_visible ex_stored_once).
             \<not> (date_le (period_start ex_date (Some (Date 2025 1 1))) (dept_report_date row)
                \<and> date_le (dept_report_date row) (today_if_none ex_date (Some (Date 2025 1 31))))"
    by (simp add: ex_stored_once_visible dept_tuple_def ex_date_def date_le_def
        period_start_def today_if_none_def)
  have 3: "\<forall>k<6. \<not> raises [] k"
    by (simp add: raises_Nil)
  from empty_period_report [OF 1 2 3] show ?thesis
    by (simp add: period_start_def today_if_none_def)
qed

section \<open>What the queries compute\<close>

lemma float_or_0_sum: "float_or_0 (sql_sum vs) = sum_list (non_null vs)"
  by (cases "non_null vs") (simp_all add: float_or_0_def sql_sum_def)

lemma float_or_0_avg:
  "float_or_0 (sql_avg vs) =
     (if non_null vs = [] then 0 else sum_list (non_null vs) / of_nat (length (non_null vs)))"
  by (cases "non_null vs") (simp_all add: float_or_0_def sql_avg_def)

lemma int_or_0_id: "int_or_0 n = n"
  by (simp add: int_or_0_def)

lemma non_null_map_Some: "non_null (map (\<lambda>r. Some (f r)) rows) = map f rows"
  by (induction rows) simp_all

lemma count_distinct_card:
  "count_distinct (map (\<lambda>r. Some (f r)) rows) = card (f ` set rows)"
  by (simp add: count_distinct_def non_null_map_Some length_remdups_card_conv)

lemma non_null_append: "non_null (xs @ ys) = non_null xs @ non_null ys"
  by (induction xs rule: non_null.induct) simp_all

lemma non_null_all_Some:
  "\<forall>v\<in>set vs. v \<noteq> None \<Longrightarrow> length (non_null vs) = length vs"
  by (induction vs rule: non_null.induct) simp_all

text \<open>The restriction of the stored rows to a period, both ends included.\<close>

lemma between_iff: "between d lo hi \<longleftrightarrow> date_le lo d \<and> date_le d hi"
  by (simp add: between_def)

lemma date_le_refl: "date_le d d"
  by (simp add: date_le_def)



section \<open>The report of the example\<close>

lemma ex_gs_row:
  "report_date (fin_tuple ex_date ex_gs) = ex_date"
  "project_code (fin_tuple ex_date ex_gs) = ''P1''"
  "project_type (fin_tuple ex_date ex_gs) = Some ''GS''"
  "status (fin_tuple ex_date ex_gs) = Some ''Success''"
  "contract_price (fin_tuple ex_date ex_gs) = Some 1000000"
  "total_cost (fin_tuple ex_date ex_gs) = Some 700000"
  "profit (fin_tuple ex_date ex_gs) = Some 300000"
  "profit_margin (fin_tuple ex_date ex_gs) = Some 30"
  "total_hours (fin_tuple ex_date ex_gs) = Some 200"
  "efficiency_score (fin_tuple ex_date ex_gs) = Some 1500"
  by (simp_all add: fin_tuple_def ex_gs_def get_default_def)

lemma ex_iss_row:
  "report_date (fin_tuple ex_date ex_iss) = ex_date"
  "project_code (fin_tuple ex_date ex_iss) = ''P2''"
  "project_type (fin_tuple ex_date ex_iss) = Some ''ISS''"
  "status (fin_tuple ex_date ex_iss) = Some ''Unknown''"
  "contract_price (fin_tuple ex_date ex_iss) = Some 500000"
  "total_cost (fin_tuple ex_date ex_iss) = Some 600000"
  "profit (fin_tuple ex_date ex_iss) = Some (- 100000)"
  "profit_margin (fin_tuple ex_date ex_iss) = Some (- 20)"
  "total_hours (fin_tuple ex_date ex_iss) = Some 100"
  "efficiency_score (fin_tuple ex_date ex_iss) = Some (- 1000)"
  by (simp_all add: fin_tuple_def ex_iss_def get_default_def)

lemma ex_dept_row:
  "dept_report_date (dept_tuple ex_date ex_dept) = ex_date"
  "department_name (dept_tuple ex_date ex_dept) = ''Design''"
  "dept_total_hours (dept_tuple ex_date ex_dept) = Some 300"
  "total_labor_cost (dept_tuple ex_date ex_dept) = Some 300000"
  "num_projects (dept_tuple ex_date ex_dept) = Some 2"
  by (simp_all add: dept_tuple_def ex_dept_def)

lemma between_refl: "between d d d"
  by (simp add: between_def date_le_def)

lemma ex_queries:
  "summary_query [fin_tuple ex_date ex_gs, fin_tuple ex_date ex_iss] ex_date ex_date
     = [(2, Some 1500000, Some 1300000, Some 200000, Some 5, Some 300)]"
  "type_query [fin_tuple ex_date ex_gs, fin_tuple ex_date ex_iss] ex_date ex_date
     = [(Some ''GS'', 1, Some 300000, Some 30), (Some ''ISS'', 1, Some (- 100000), Some (- 20))]"
  "status_query [fin_tuple ex_date ex_gs, fin_tuple ex_date ex_iss] ex_date ex_date
     = [(Some ''Success'', 1, Some 30)]"
  "loss_query [fin_tuple ex_date ex_gs, fin_tuple ex_date ex_iss] ex_date ex_date
     = [(1, Some (- 100000))]"
  "low_eff_query [fin_tuple ex_date ex_gs, fin_tuple ex_date ex_iss] ex_date ex_date = [1]"
  by (simp_all add: summary_query_def type_query_def status_query_def loss_query_def
      low_eff_query_def ex_gs_row ex_iss_row between_refl count_distinct_def sql_sum_def
      sql_avg_def group_keys_def group_of_def is_equal_def is_not_equal_def is_less_def
      is_greater_def)

lemma ex_dept_query:
  "dept_query [dept_tuple ex_date ex_dept] ex_date ex_date
     = [(''Design'', Some 300, Some 300000, Some 2)]"
  by (simp add: dept_query_def dept_groups_def ex_dept_row between_refl sql_sum_def sql_avg_def
      group_keys_def group_of_def)

lemma ex_numbers:
  "str_nat 1 = ''1''"
  "str_nat (Suc 0) = ''1''"
  "format_2f 100000 = ''100,000.00''"
  by (simp_all add: format_2f_def round_half_even_def group_thousands.simps str_nat.simps
      digit_char_def Let_def)

lemma ex_period:
  "period_start ex_date None = ex_date"
  "today_if_none ex_date None = ex_date"
  by (simp_all add: period_start_def today_if_none_def ex_date_def)

lemma ex_report_eval:
  "generate_automated_report [] ex_date ex_stored_once None None = Inr ex_report"
  unfolding generate_automated_report_def Let_def ex_period ex_stored_once_visible
    ex_queries ex_dept_query
  by (simp add: execute_ok raises_Nil and_then_ok fetchone_def summary_dict_def int_or_0_def
      float_or_0_def loss_rule_def low_eff_rule_def ex_numbers ex_report_def)

section \<open>The period of the report\<close>


lemma summary_of_report:
  assumes "generate_automated_report faults now c sa ea = Inr r"
  defines "inside \<equiv> filter (\<lambda>row. date_le (period_start now sa) (report_date row)
                               \<and> date_le (report_date row) (today_if_none now ea))
                       (fin_visible c)"
  shows "summary r =
     Some \<lparr>total_projects = card (project_code ` set inside),
           total_revenue = sum_list (non_null (map contract_price inside)),
           summary_total_cost = sum_list (non_null (map total_cost inside)),
           total_profit = sum_list (non_null (map profit inside)),
           avg_profit_margin =
             (if non_null (map profit_margin inside) = [] then 0
              else sum_list (non_null (map profit_margin inside))
                   / of_nat (length (non_null (map profit_margin inside)))),
           summary_total_hours = sum_list (non_null (map total_hours inside))\<rparr>"
  unfolding report_sections(4) [OF assms(1)] inside_def
  by (simp add: summary_query_def Let_def fetchone_def summary_dict_def float_or_0_sum
      float_or_0_avg int_or_0_id count_distinct_card between_iff)



section \<open>The alert rules\<close>

lemma is_less_iff: "is_less v k \<longleftrightarrow> (\<exists>x. v = Some x \<and> x < k)"
  by (cases v) (simp_all add: is_less_def)

lemma is_greater_iff: "is_greater v k \<longleftrightarrow> (\<exists>x. v = Some x \<and> k < x)"
  by (cases v) (simp_all add: is_greater_def)

lemma is_equal_iff: "is_equal v s \<longleftrightarrow> v = Some s"
  by (cases v) (auto simp: is_equal_def)

lemma is_not_equal_iff: "is_not_equal v s \<longleftrightarrow> (\<exists>x. v = Some x \<and> x \<noteq> s)"
  by (cases v) (simp_all add: is_not_equal_def)

lemma non_null_not_empty:
  assumes "rows \<noteq> []" and "\<forall>r\<in>set rows. f r \<noteq> None"
  shows "non_null (map f rows) \<noteq> []"
proof -
  from assms(2) have "length (non_null (map f rows)) = length (map f rows)"
    by (intro non_null_all_Some) simp
  with assms(1) show ?thesis
    by auto
qed

lemma sql_sum_Some:
  "non_null vs \<noteq> [] \<Longrightarrow> sql_sum vs = Some (sum_list (non_null vs))"
  by (cases "non_null vs") (simp_all add: sql_sum_def)

lemma sql_avg_Some:
  "non_null vs \<noteq> [] \<Longrightarrow>
     sql_avg vs = Some (sum_list (non_null vs) / of_nat (length (non_null vs)))"
  by (cases "non_null vs") (simp_all add: sql_avg_def)

lemma loss_rule_of_query:
  fixes rows :: "fin_row list" and s e :: date
  defines "losses \<equiv> filter (\<lambda>row. date_le s (report_date row) \<and> date_le (report_date row) e
                                \<and> (\<exists>p. profit row = Some p \<and> p < 0)) rows"
  shows "loss_rule (fetchone (loss_query rows s e)) =
     Inr (if 0 < length losses
          then [\<lparr>alert_type = ''loss_making_projects'',
                 severity = ''high'',
                 message = str_nat (length losses) @ '' projects with total loss of '' @
                           [char_of (165 :: nat)] @
                           format_2f \<bar>sum_list (non_null (map profit losses))\<bar>\<rparr>]
          else [])"
proof (cases "losses = []")
  case True
  then show ?thesis
    by (simp add: loss_rule_def fetchone_def loss_query_def Let_def between_iff is_less_iff
        losses_def conj_assoc)
next
  case False
  have "\<forall>r\<in>set losses. profit r \<noteq> None"
    by (auto simp: losses_def)
  with False have "non_null (map profit losses) \<noteq> []"
    by (rule non_null_not_empty)
  then have "sql_sum (map profit losses) = Some (sum_list (non_null (map profit losses)))"
    by (rule sql_sum_Some)
  moreover have "loss_query rows s e = [(length losses, sql_sum (map profit losses))]"
    by (simp add: loss_query_def Let_def between_iff is_less_iff losses_def conj_assoc)
  ultimately show ?thesis
    using False by (simp add: loss_rule_def fetchone_def)
qed

lemma low_eff_rule_of_query:
  fixes rows :: "fin_row list" and s e :: date
  defines "low \<equiv> filter (\<lambda>row. date_le s (report_date row) \<and> date_le (report_date row) e
                             \<and> (\<exists>x. efficiency_score row = Some x \<and> x < 100)
                             \<and> (\<exists>h. total_hours row = Some h \<and> 0 < h)) rows"
  shows "low_eff_rule (fetchone (low_eff_query rows s e)) =
     (if 0 < length low
      then [\<lparr>alert_type = ''low_efficiency'',
             severity = ''medium'',
             message = str_nat (length low) @ '' projects with low efficiency scores''\<rparr>]
      else [])"
  by (simp add: low_eff_rule_def fetchone_def low_eff_query_def Let_def between_iff is_less_iff
      is_greater_iff low_def conj_assoc)

text \<open>
  C4: the alerts of a returned report are decided by two counts over the rows of the
  period, each on its own. The rows with a negative profit give the first alert, of
  severity high, whose message holds their number and the absolute value of their summed
  profit; the rows with an efficiency score below 100 and more than 0 hours give the
  second, of severity medium, whose message holds their number. An alert is present
  exactly when its count is positive, the loss alert comes first, and there is no other
  alert.
\<close>

theorem alerts_of_report:
  assumes "generate_automated_report faults now c sa ea = Inr r"
  defines "inside \<equiv> \<lambda>row. date_le (period_start now sa) (report_date row)
                           \<and> date_le (report_date row) (today_if_none now ea)"
  defines "losses \<equiv> filter (\<lambda>row. inside row \<and> (\<exists>p. profit row = Some p \<and> p < 0))
                       (fin_visible c)"
  defines "low \<equiv> filter (\<lambda>row. inside row \<and> (\<exists>x. efficiency_score row = Some x \<and> x < 100)
                                \<and> (\<exists>h. total_hours row = Some h \<and> 0 < h))
                    (fin_visible c)"
  shows "alerts r =
     (if 0 < length losses
      then [\<lparr>alert_type = ''loss_making_projects'',
             severity = ''high'',
             message = str_nat (length losses) @ '' projects with total loss of '' @
                       [char_of (165 :: nat)] @
                       format_2f \<bar>sum_list (non_null (map profit losses))\<bar>\<rparr>]
      else [])
     @ (if 0 < length low
        then [\<lparr>alert_type = ''low_efficiency'',
               severity = ''medium'',
               message = str_nat (length low) @ '' projects with low efficiency scores''\<rparr>]
        else [])"
proof -
  from report_sections(8) [OF assms(1)] obtain la where
    la: "loss_rule (fetchone (loss_query (fin_visible c) (period_start now sa)
           (today_if_none now ea))) = Inr la"
    and al: "alerts r = la @ low_eff_rule (fetchone (low_eff_query (fin_visible c)
           (period_start now sa) (today_if_none now ea)))"
    by blast
  note la' = la [unfolded loss_rule_of_query sum.inject]
  show ?thesis
    unfolding al la' [symmetric] low_eff_rule_of_query losses_def low_def inside_def conj_assoc
    by (rule refl)
qed

theorem alerts_of_report_witness:
  "generate_automated_report [] ex_date ex_stored_once None None = Inr ex_report
   \<and> length (filter (\<lambda>row. (date_le ex_date (report_date row) \<and> date_le (report_date row) ex_date)
                        \<and> (\<exists>p. profit row = Some p \<and> p < 0))
        (fin_visible ex_stored_once)) = 1
   \<and> length (filter (\<lambda>row. (date_le ex_date (report_date row) \<and> date_le (report_date row) ex_date)
                        \<and> (\<exists>x. efficiency_score row = Some x \<and> x < 100)
                        \<and> (\<exists>h. total_hours row = Some h \<and> 0 < h))
        (fin_visible ex_stored_once)) = 1
   \<and> map message (alerts ex_report) =
       [str_nat 1 @ '' projects with total loss of '' @ [char_of (165 :: nat)] @ format_2f 100000,
        str_nat 1 @ '' projects with low efficiency scores'']"
proof -
  have n1: "length (filter (\<lambda>row. (date_le ex_date (report_date row) \<and> date_le (report_date row) ex_date)
                        \<and> (\<exists>p. profit row = Some p \<and> p < 0))
        (fin_visible ex_stored_once)) = 1"
    by (simp add: ex_stored_once_visible ex_gs_row ex_iss_row date_le_refl)
  have n2: "length (filter (\<lambda>row. (date_le ex_date (report_date row) \<and> date_le (report_date row) ex_date)
                        \<and> (\<exists>x. efficiency_score row = Some x \<and> x < 100)
                        \<and> (\<exists>h. total_hours row = Some h \<and> 0 < h))
        (fin_visible ex_stored_once)) = 1"
    by (simp add: ex_stored_once_visible ex_gs_row ex_iss_row date_le_refl)
  have s: "sum_list (non_null (map profit (filter (\<lambda>row. (date_le ex_date (report_date row)
                \<and> date_le (report_date row) ex_date) \<and> (\<exists>p. profit row = Some p \<and> p < 0))
        (fin_visible ex_stored_once)))) = - 100000"
    by (simp add: ex_stored_once_visible ex_gs_row ex_iss_row date_le_refl)
  from alerts_of_report [OF ex_report_eval, unfolded ex_period n1 n2 s]
  have "map message (alerts ex_report) =
       [str_nat 1 @ '' projects with total loss of '' @ [char_of (165 :: nat)] @ format_2f 100000,
        str_nat 1 @ '' projects with low efficiency scores'']"
    by simp
  with ex_report_eval n1 n2 show ?thesis
    by blast
qed

section \<open>The breakdown by status\<close>

lemma status_loop_other:
  "status_loop rows d = Inr d' \<Longrightarrow> k \<notin> fst ` set rows \<Longrightarrow> d' k = d k"
proof (induction rows arbitrary: d)
  case Nil
  then show ?case by simp
next
  case (Cons row rows)
  obtain k0 n0 a0 where row: "row = (k0, n0, a0)"
    by (cases row)
  from Cons.prems(1) obtain a' where a0: "a0 = Some a'"
    and rest: "status_loop rows (d(k0 \<mapsto> \<lparr>status_count = n0, status_avg_margin = a'\<rparr>)) = Inr d'"
    by (cases a0) (simp_all add: row)
  from Cons.prems(2) have "k \<noteq> k0" and "k \<notin> fst ` set rows"
    by (auto simp: row)
  with Cons.IH [OF rest] show ?case
    by simp
qed

lemma status_loop_entry:
  "status_loop rows d = Inr d' \<Longrightarrow> distinct (map fst rows) \<Longrightarrow> (k, n, a) \<in> set rows \<Longrightarrow>
     \<exists>a'. a = Some a' \<and> d' k = Some \<lparr>status_count = n, status_avg_margin = a'\<rparr>"
proof (induction rows arbitrary: d)
  case Nil
  then show ?case by simp
next
  case (Cons row rows)
  obtain k0 n0 a0 where row: "row = (k0, n0, a0)"
    by (cases row)
  from Cons.prems(1) obtain a' where a0: "a0 = Some a'"
    and rest: "status_loop rows (d(k0 \<mapsto> \<lparr>status_count = n0, status_avg_margin = a'\<rparr>)) = Inr d'"
    by (cases a0) (simp_all add: row)
  from Cons.prems(2) have dist: "distinct (map fst rows)" and fresh: "k0 \<notin> fst ` set rows"
    by (simp_all add: row)
  show ?case
  proof (cases "(k, n, a) = row")
    case True
    with row a0 have "k = k0" "n = n0" "a = Some a'"
      by simp_all
    moreover from status_loop_other [OF rest fresh]
    have "d' k0 = Some \<lparr>status_count = n0, status_avg_margin = a'\<rparr>"
      by simp
    ultimately show ?thesis
      by simp
  next
    case False
    with Cons.prems(3) have "(k, n, a) \<in> set rows"
      by simp
    from Cons.IH [OF rest dist this] show ?thesis .
  qed
qed

lemma status_query_rows:
  fixes rows :: "fin_row list" and s e :: date
  defines "eligible \<equiv> filter (\<lambda>row. date_le s (report_date row) \<and> date_le (report_date row) e
                                  \<and> project_type row = Some ''GS''
                                  \<and> (\<exists>st. status row = Some st \<and> st \<noteq> ''Unknown'')) rows"
  shows "status_query rows s e =
     map (\<lambda>k. (k, length (filter (\<lambda>row. status row = k) eligible),
                 sql_avg (map profit_margin (filter (\<lambda>row. status row = k) eligible))))
       (remdups (map status eligible))"
  by (simp add: status_query_def Let_def between_iff is_equal_iff is_not_equal_iff eligible_def
      group_keys_def group_of_def conj_assoc)

lemma status_entries:
  assumes "status_loop (status_query rows s e) Map.empty = Inr breakdown"
  defines "eligible \<equiv>
     filter (\<lambda>row. date_le s (report_date row) \<and> date_le (report_date row) e
                  \<and> project_type row = Some ''GS''
                  \<and> (\<exists>st. status row = Some st \<and> st \<noteq> ''Unknown'')) rows"
  shows "k \<notin> status ` set eligible \<Longrightarrow> breakdown k = None"
    and "k \<in> status ` set eligible \<Longrightarrow>
           non_null (map profit_margin (filter (\<lambda>row. status row = k) eligible)) \<noteq> []
           \<and> breakdown k =
               Some \<lparr>status_count = length (filter (\<lambda>row. status row = k) eligible),
                     status_avg_margin =
                       sum_list (non_null (map profit_margin
                           (filter (\<lambda>row. status row = k) eligible)))
                       / of_nat (length (non_null (map profit_margin
                           (filter (\<lambda>row. status row = k) eligible))))\<rparr>"
proof -
  let ?q = "status_query rows s e"
  let ?g = "\<lambda>k. filter (\<lambda>row. status row = k) eligible"
  have q: "?q = map (\<lambda>k. (k, length (?g k), sql_avg (map profit_margin (?g k))))
                  (remdups (map status eligible))"
    unfolding eligible_def by (rule status_query_rows)
  have keys: "map fst ?q = remdups (map status eligible)"
    unfolding q by (simp add: comp_def)
  show "breakdown k = None" if "k \<notin> status ` set eligible"
  proof -
    from that have "k \<notin> fst ` set ?q"
      using keys by (metis list.set_map set_remdups)
    from status_loop_other [OF assms(1) this] show ?thesis
      by simp
  qed
  show "non_null (map profit_margin (?g k)) \<noteq> []
      \<and> breakdown k =
          Some \<lparr>status_count = length (?g k),
                status_avg_margin = sum_list (non_null (map profit_margin (?g k)))
                  / of_nat (length (non_null (map profit_margin (?g k))))\<rparr>"
    if "k \<in> status ` set eligible"
  proof -
    from that have "(k, length (?g k), sql_avg (map profit_margin (?g k))) \<in> set ?q"
      unfolding q by auto
    moreover have "distinct (map fst ?q)"
      unfolding keys by simp
    ultimately obtain a' where a: "sql_avg (map profit_margin (?g k)) = Some a'"
      and entry: "breakdown k = Some \<lparr>status_count = length (?g k), status_avg_margin = a'\<rparr>"
      using status_loop_entry [OF assms(1)] by blast
    from a have ne: "non_null (map profit_margin (?g k)) \<noteq> []"
      by (auto simp: sql_avg_def)
    from sql_avg_Some [OF ne] a entry ne show ?thesis
      by simp
  qed
qed

text \<open>
  C5: the status breakdown of a returned report is made from the rows of the period
  whose type is \<^verbatim>\<open>GS\<close> and whose status is neither \<^verbatim>\<open>NULL\<close> nor \<^verbatim>\<open>Unknown\<close>, and from no
  other row. It has an entry exactly for the statuses of these rows; the entry holds how
  many of them have that status and the mean of their margins. There is no entry for
  \<^verbatim>\<open>Unknown\<close>, and a row of another type or with status \<^verbatim>\<open>Unknown\<close> is none of these rows.
\<close>

theorem status_breakdown_of_report:
  assumes "generate_automated_report faults now c sa ea = Inr r"
  defines "eligible \<equiv>
     filter (\<lambda>row. date_le (period_start now sa) (report_date row)
                  \<and> date_le (report_date row) (today_if_none now ea)
                  \<and> project_type row = Some ''GS''
                  \<and> (\<exists>st. status row = Some st \<and> st \<noteq> ''Unknown''))
       (fin_visible c)"
  shows "(\<forall>k. (k \<notin> status ` set eligible \<longrightarrow> project_status r k = None)
            \<and> (k \<in> status ` set eligible \<longrightarrow>
                 non_null (map profit_margin (filter (\<lambda>row. status row = k) eligible)) \<noteq> []
                 \<and> project_status r k =
                     Some \<lparr>status_count = length (filter (\<lambda>row. status row = k) eligible),
                           status_avg_margin =
                             sum_list (non_null (map profit_margin
                                 (filter (\<lambda>row. status row = k) eligible)))
                             / of_nat (length (non_null (map profit_margin
                                 (filter (\<lambda>row. status row = k) eligible))))\<rparr>))
         \<and> project_status r (Some ''Unknown'') = None
         \<and> project_status r None = None
         \<and> (\<forall>row\<in>set (fin_visible c).
               project_type row \<noteq> Some ''GS'' \<or> status row = Some ''Unknown''
                 \<longrightarrow> row \<notin> set eligible)"
proof -
  have loop: "status_loop (status_query (fin_visible c) (period_start now sa)
      (today_if_none now ea)) Map.empty = Inr (project_status r)"
    by (rule report_sections(6) [OF assms(1)])
  note entries = status_entries [OF loop, folded eligible_def]
  have "Some ''Unknown'' \<notin> status ` set eligible" and "None \<notin> status ` set eligible"
    by (auto simp: eligible_def)
  then have "project_status r (Some ''Unknown'') = None" and "project_status r None = None"
    by (simp_all add: entries(1))
  moreover have "\<forall>row\<in>set (fin_visible c).
      project_type row \<noteq> Some ''GS'' \<or> status row = Some ''Unknown'' \<longrightarrow> row \<notin> set eligible"
    by (auto simp: eligible_def)
  ultimately show ?thesis
    using entries by blast
qed

theorem status_breakdown_of_report_witness:
  "generate_automated_report [] ex_date ex_stored_once None None = Inr ex_report
   \<and> project_status ex_report (Some ''Success'') = Some \<lparr>status_count = 1, status_avg_margin = 30\<rparr>
   \<and> project_status ex_report (Some ''Unknown'') = None
   \<and> project_status ex_report None = None
   \<and> status (fin_tuple ex_date ex_iss) = Some ''Unknown''
   \<and> fin_tuple ex_date ex_iss \<notin> set (filter (\<lambda>row. date_le ex_date (report_date row)
                  \<and> date_le (report_date row) ex_date
                  \<and> project_type row = Some ''GS''
                  \<and> (\<exists>st. status row = Some st \<and> st \<noteq> ''Unknown''))
       (fin_visible ex_stored_once))"
proof -
  note t = status_breakdown_of_report [OF ex_report_eval, unfolded ex_period]
  have "fin_tuple ex_date ex_iss \<in> set (fin_visible ex_stored_once)"
    by (simp add: ex_stored_once_visible)
  with t ex_iss_row(4) have "fin_tuple ex_date ex_iss \<notin> set (filter (\<lambda>row. date_le ex_date (report_date row)
                  \<and> date_le (report_date row) ex_date
                  \<and> project_type row = Some ''GS''
                  \<and> (\<exists>st. status row = Some st \<and> st \<noteq> ''Unknown''))
       (fin_visible ex_stored_once))"
    by blast
  moreover have "project_status ex_report (Some ''Success'')
      = Some \<lparr>status_count = 1, status_avg_margin = 30\<rparr>"
    by (simp add: ex_report_def)
  ultimately show ?thesis
    using t ex_report_eval ex_iss_row(4) by blast
qed

section \<open>Rows without a status field\<close>

lemma ex_stored_gs_eq:
  "ex_stored_gs =
     \<lparr>financial_summary = [fin_tuple ex_date ex_gs], department_summary = [],
      fin_uncommitted = [], dept_uncommitted = []\<rparr>"
  by (simp add: ex_stored_gs_def insert_fin_result raises_Nil commit_def empty_connection_def
      today_if_none_def)

lemma fin_tuple_status:
  "status (fin_tuple d row) = (case Status row of None \<Rightarrow> Some ''Unknown'' | Some v \<Rightarrow> v)"
  by (simp add: fin_tuple_def get_default_def)

lemma insert_fin_visible:
  assumes "insert_financial_summary f now c df da = (None, c')"
  shows "fin_visible c' = fin_visible c @ map (fin_tuple (today_if_none now da)) df"
  unfolding insert_fin_returns [OF assms]
  by (simp add: fin_visible_def commit_def)

lemma ex_stored_null_status_eq:
  "ex_stored_null_status =
     \<lparr>financial_summary = [fin_tuple ex_date ex_null_status], department_summary = [],
      fin_uncommitted = [], dept_uncommitted = []\<rparr>"
  by (simp add: ex_stored_null_status_def insert_fin_result raises_Nil commit_def
      empty_connection_def today_if_none_def)

text \<open>
  C10, as claimed: a row without a \<^verbatim>\<open>Status\<close> field is stored with the status \<^verbatim>\<open>Unknown\<close>,
  and \<^verbatim>\<open>insert_financial_summary\<close> never stores a null or missing status. The default of
  \<^verbatim>\<open>row.get\<close> applies only when the field is missing. In the example the row has a
  \<^verbatim>\<open>Status\<close> field that holds \<^verbatim>\<open>None\<close>: the insert returns, and the status of the row it
  has stored is \<^verbatim>\<open>NULL\<close>.
\<close>

theorem present_null_status_counterexample:
  "Status ex_null_status = Some None
   \<and> insert_financial_summary [] ex_date empty_connection [ex_null_status] None
       = (None, ex_stored_null_status)
   \<and> map status (financial_summary ex_stored_null_status) = [None]"
proof -
  have "Status ex_null_status = Some None"
    by (simp add: ex_null_status_def)
  moreover have "insert_financial_summary [] ex_date empty_connection [ex_null_status] None
      = (None, ex_stored_null_status)"
    by (simp add: ex_stored_null_status_def insert_fin_result raises_Nil)
  moreover have "map status (financial_summary ex_stored_null_status) = [None]"
    by (simp add: ex_stored_null_status_eq fin_tuple_status ex_null_status_def)
  ultimately show ?thesis
    by blast
qed

text \<open>
  C10, amended: a row of the frame without a \<^verbatim>\<open>Status\<close> field is stored with the status
  \<^verbatim>\<open>Unknown\<close>, and a row with the field is stored with the value of the field, also when
  that value is \<^verbatim>\<open>None\<close>, which is stored as \<^verbatim>\<open>NULL\<close>. An insert that returns has appended
  the rows of the frame, each with that status. In any later state of the table, whatever
  was stored before and after a batch of rows without the field, a returned report has no
  status entry for \<^verbatim>\<open>Unknown\<close>, and its status breakdown is the one of the other rows.
\<close>

theorem missing_status_is_unknown:
  fixes before after :: "fin_row list" and now2 :: date and sa ea :: "date option"
  defines "others \<equiv>
     filter (\<lambda>row. date_le (period_start now2 sa) (report_date row)
                  \<and> date_le (report_date row) (today_if_none now2 ea)
                  \<and> project_type row = Some ''GS''
                  \<and> (\<exists>st. status row = Some st \<and> st \<noteq> ''Unknown''))
       (before @ after)"
  shows "(Status row = None \<longrightarrow> status (fin_tuple d row) = Some ''Unknown'')
   \<and> (Status row2 = Some v \<longrightarrow> status (fin_tuple d row2) = v)
   \<and> (insert_financial_summary f now c df da = (None, c')
        \<longrightarrow> fin_visible c' = fin_visible c @ map (fin_tuple (today_if_none now da)) df)
   \<and> ((\<forall>row\<in>set df. Status row = None)
        \<and> fin_visible c2 = before @ map (fin_tuple d) df @ after
        \<and> generate_automated_report f2 now2 c2 sa ea = Inr r
        \<longrightarrow> project_status r (Some ''Unknown'') = None
          \<and> (\<forall>k. k \<notin> status ` set others \<longrightarrow> project_status r k = None)
          \<and> (\<forall>k. k \<in> status ` set others \<longrightarrow>
                 project_status r k =
                   Some \<lparr>status_count = length (filter (\<lambda>row. status row = k) others),
                         status_avg_margin =
                           sum_list (non_null (map profit_margin
                               (filter (\<lambda>row. status row = k) others)))
                           / of_nat (length (non_null (map profit_margin
                               (filter (\<lambda>row. status row = k) others))))\<rparr>))"
proof (intro conjI impI)
  assume "Status row = None"
  then show "status (fin_tuple d row) = Some ''Unknown''"
    by (simp add: fin_tuple_status)
next
  assume "Status row2 = Some v"
  then show "status (fin_tuple d row2) = v"
    by (simp add: fin_tuple_status)
next
  assume "insert_financial_summary f now c df da = (None, c')"
  then show "fin_visible c' = fin_visible c @ map (fin_tuple (today_if_none now da)) df"
    by (rule insert_fin_visible)
next
  assume a: "(\<forall>row\<in>set df. Status row = None)
        \<and> fin_visible c2 = before @ map (fin_tuple d) df @ after
        \<and> generate_automated_report f2 now2 c2 sa ea = Inr r"
  then have r: "generate_automated_report f2 now2 c2 sa ea = Inr r"
    and vis: "fin_visible c2 = before @ map (fin_tuple d) df @ after"
    and unknown: "\<forall>row\<in>set df. status (fin_tuple d row) = Some ''Unknown''"
    by (simp_all add: fin_tuple_status)
  have same: "filter (\<lambda>row. date_le (period_start now2 sa) (report_date row)
                  \<and> date_le (report_date row) (today_if_none now2 ea)
                  \<and> project_type row = Some ''GS''
                  \<and> (\<exists>st. status row = Some st \<and> st \<noteq> ''Unknown''))
       (fin_visible c2) = others"
    using unknown by (simp add: vis others_def filter_empty_conv)
  note entries = status_entries [OF report_sections(6) [OF r], unfolded same]
  have "Some ''Unknown'' \<notin> status ` set others"
    by (auto simp: others_def)
  then show "project_status r (Some ''Unknown'') = None"
    by (rule entries(1))
  show "\<forall>k. k \<notin> status ` set others \<longrightarrow> project_status r k = None"
    using entries(1) by blast
  show "\<forall>k. k \<in> status ` set others \<longrightarrow>
                 project_status r k =
                   Some \<lparr>status_count = length (filter (\<lambda>row. status row = k) others),
                         status_avg_margin =
                           sum_list (non_null (map profit_margin
                               (filter (\<lambda>row. status row = k) others)))
                           / of_nat (length (non_null (map profit_margin
                               (filter (\<lambda>row. status row = k) others))))\<rparr>"
    using entries(2) by blast
qed

theorem missing_status_is_unknown_witness:
  "Status ex_iss = None
   \<and> status (fin_tuple ex_date ex_iss) = Some ''Unknown''
   \<and> Status ex_null_status = Some None
   \<and> status (fin_tuple ex_date ex_null_status) = None
   \<and> fin_visible (snd (insert_financial_summary [] ex_date ex_stored_gs [ex_iss] None))
       = fin_visible ex_stored_gs @ map (fin_tuple ex_date) [ex_iss]
   \<and> fin_visible ex_stored_once = [fin_tuple ex_date ex_gs] @ map (fin_tuple ex_date) [ex_iss] @ []
   \<and> generate_automated_report [] ex_date ex_stored_once None None = Inr ex_report
   \<and> project_status ex_report (Some ''Unknown'') = None"
proof -
  have 1: "Status ex_iss = None"
    by (simp add: ex_iss_def)
  have 2: "insert_financial_summary [] ex_date ex_stored_gs [ex_iss] None
      = (None, snd (insert_financial_summary [] ex_date ex_stored_gs [ex_iss] None))"
    by (simp add: insert_fin_result raises_Nil)
  have 3: "(\<forall>row\<in>set [ex_iss]. Status row = None)
        \<and> fin_visible ex_stored_once = [fin_tuple ex_date ex_gs] @ map (fin_tuple ex_date) [ex_iss] @ []
        \<and> generate_automated_report [] ex_date ex_stored_once None None = Inr ex_report"
    by (simp add: 1 ex_stored_once_visible ex_report_eval)
  have 4: "Status ex_null_status = Some None"
    by (simp add: ex_null_status_def)
  note t = missing_status_is_unknown
    [where row = ex_iss and d = ex_date and ?row2.0 = ex_null_status and v = None
       and f = "[]" and now = ex_date and c = ex_stored_gs
       and df = "[ex_iss]" and da = None
       and c' = "snd (insert_financial_summary [] ex_date ex_stored_gs [ex_iss] None)"
       and ?c2.0 = ex_stored_once and before = "[fin_tuple ex_date ex_gs]" and after = "[]"
       and ?f2.0 = "[]" and ?now2.0 = ex_date and sa = None and ea = None and r = ex_report]
  from t 1 have a: "status (fin_tuple ex_date ex_iss) = Some ''Unknown''"
    by blast
  from t 4 have d: "status (fin_tuple ex_date ex_null_status) = None"
    by blast
  from t 2 have b: "fin_visible (snd (insert_financial_summary [] ex_date ex_stored_gs [ex_iss] None))
       = fin_visible ex_stored_gs @ map (fin_tuple ex_date) [ex_iss]"
    by (simp add: today_if_none_def)
  from t 3 have c: "project_status ex_report (Some ''Unknown'') = None"
    by blast
  from 1 a 4 d b c 3 show ?thesis
    by blast
qed

section \<open>Null margins and the means\<close>

lemma type_loop_other:
  "type_loop rows d = Inr d' \<Longrightarrow> k \<notin> fst ` set rows \<Longrightarrow> d' k = d k"
proof (induction rows arbitrary: d)
  case Nil
  then show ?case by simp
next
  case (Cons row rows)
  obtain k0 n0 p0 a0 where row: "row = (k0, n0, p0, a0)"
    by (cases row)
  from Cons.prems(1) obtain p' a' where "p0 = Some p'" "a0 = Some a'"
    and rest: "type_loop rows
        (d(k0 \<mapsto> \<lparr>type_count = n0, type_total_profit = p', type_avg_margin = a'\<rparr>)) = Inr d'"
    by (cases p0; cases a0) (simp_all add: row)
  from Cons.prems(2) have "k \<noteq> k0" and "k \<notin> fst ` set rows"
    by (auto simp: row)
  with Cons.IH [OF rest] show ?case
    by simp
qed

lemma type_loop_entry:
  "type_loop rows d = Inr d' \<Longrightarrow> distinct (map fst rows) \<Longrightarrow> (k, n, p, a) \<in> set rows \<Longrightarrow>
     \<exists>p' a'. p = Some p' \<and> a = Some a'
       \<and> d' k = Some \<lparr>type_count = n, type_total_profit = p', type_avg_margin = a'\<rparr>"
proof (induction rows arbitrary: d)
  case Nil
  then show ?case by simp
next
  case (Cons row rows)
  obtain k0 n0 p0 a0 where row: "row = (k0, n0, p0, a0)"
    by (cases row)
  from Cons.prems(1) obtain p' a' where some: "p0 = Some p'" "a0 = Some a'"
    and rest: "type_loop rows
        (d(k0 \<mapsto> \<lparr>type_count = n0, type_total_profit = p', type_avg_margin = a'\<rparr>)) = Inr d'"
    by (cases p0; cases a0) (simp_all add: row)
  from Cons.prems(2) have dist: "distinct (map fst rows)" and fresh: "k0 \<notin> fst ` set rows"
    by (simp_all add: row)
  show ?case
  proof (cases "(k, n, p, a) = row")
    case True
    with row some have "k = k0" "n = n0" "p = Some p'" "a = Some a'"
      by simp_all
    moreover from type_loop_other [OF rest fresh]
    have "d' k0 = Some \<lparr>type_count = n0, type_total_profit = p', type_avg_margin = a'\<rparr>"
      by simp
    ultimately show ?thesis
      by simp
  next
    case False
    with Cons.prems(3) have "(k, n, p, a) \<in> set rows"
      by simp
    from Cons.IH [OF rest dist this] show ?thesis .
  qed
qed

lemma type_query_rows:
  fixes rows :: "fin_row list" and s e :: date
  defines "inside \<equiv> filter (\<lambda>row. date_le s (report_date row) \<and> date_le (report_date row) e) rows"
  shows "type_query rows s e =
     map (\<lambda>k. (k, length (filter (\<lambda>row. project_type row = k) inside),
                 sql_sum (map profit (filter (\<lambda>row. project_type row = k) inside)),
                 sql_avg (map profit_margin (filter (\<lambda>row. project_type row = k) inside))))
       (remdups (map project_type inside))"
  by (simp add: type_query_def Let_def between_iff inside_def group_keys_def group_of_def)

lemma type_entries:
  assumes "type_loop (type_query rows s e) Map.empty = Inr breakdown"
  defines "inside \<equiv> filter (\<lambda>row. date_le s (report_date row) \<and> date_le (report_date row) e) rows"
  shows "k \<notin> project_type ` set inside \<Longrightarrow> breakdown k = None"
    and "k \<in> project_type ` set inside \<Longrightarrow>
           non_null (map profit (filter (\<lambda>row. project_type row = k) inside)) \<noteq> []
           \<and> non_null (map profit_margin (filter (\<lambda>row. project_type row = k) inside)) \<noteq> []
           \<and> breakdown k =
               Some \<lparr>type_count = length (filter (\<lambda>row. project_type row = k) inside),
                     type_total_profit =
                       sum_list (non_null (map profit
                           (filter (\<lambda>row. project_type row = k) inside))),
                     type_avg_margin =
                       sum_list (non_null (map profit_margin
                           (filter (\<lambda>row. project_type row = k) inside)))
                       / of_nat (length (non_null (map profit_margin
                           (filter (\<lambda>row. project_type row = k) inside))))\<rparr>"
proof -
  let ?q = "type_query rows s e"
  let ?g = "\<lambda>k. filter (\<lambda>row. project_type row = k) inside"
  have q: "?q = map (\<lambda>k. (k, length (?g k), sql_sum (map profit (?g k)),
                          sql_avg (map profit_margin (?g k))))
                  (remdups (map project_type inside))"
    unfolding inside_def by (rule type_query_rows)
  have keys: "map fst ?q = remdups (map project_type inside)"
    unfolding q by (simp add: comp_def)
  show "breakdown k = None" if "k \<notin> project_type ` set inside"
  proof -
    from that have "k \<notin> fst ` set ?q"
      using keys by (metis list.set_map set_remdups)
    from type_loop_other [OF assms(1) this] show ?thesis
      by simp
  qed
  show "non_null (map profit (?g k)) \<noteq> []
      \<and> non_null (map profit_margin (?g k)) \<noteq> []
      \<and> breakdown k =
          Some \<lparr>type_count = length (?g k),
                type_total_profit = sum_list (non_null (map profit (?g k))),
                type_avg_margin = sum_list (non_null (map profit_margin (?g k)))
                  / of_nat (length (non_null (map profit_margin (?g k))))\<rparr>"
    if "k \<in> project_type ` set inside"
  proof -
    from that have "(k, length (?g k), sql_sum (map profit (?g k)),
        sql_avg (map profit_margin (?g k))) \<in> set ?q"
      unfolding q by auto
    moreover have "distinct (map fst ?q)"
      unfolding keys by simp
    ultimately obtain p' a' where p: "sql_sum (map profit (?g k)) = Some p'"
      and a: "sql_avg (map profit_margin (?g k)) = Some a'"
      and entry: "breakdown k =
        Some \<lparr>type_count = length (?g k), type_total_profit = p', type_avg_margin = a'\<rparr>"
      using type_loop_entry [OF assms(1)] by blast
    from p have np: "non_null (map profit (?g k)) \<noteq> []"
      by (auto simp: sql_sum_def)
    from a have na: "non_null (map profit_margin (?g k)) \<noteq> []"
      by (auto simp: sql_avg_def)
    from sql_sum_Some [OF np] sql_avg_Some [OF na] p a entry np na show ?thesis
      by simp
  qed
qed

lemma null_margin_dropped:
  assumes "profit_margin x = None"
  shows "non_null (map profit_margin (filter Q (before @ [x] @ after)))
           = non_null (map profit_margin (filter Q (before @ after)))"
  using assms by (simp add: non_null_append)

lemma ex_zero_row:
  "report_date (fin_tuple ex_date ex_zero) = ex_date"
  "project_code (fin_tuple ex_date ex_zero) = ''P3''"
  "project_type (fin_tuple ex_date ex_zero) = Some ''GS''"
  "status (fin_tuple ex_date ex_zero) = Some ''Success''"
  "contract_price (fin_tuple ex_date ex_zero) = Some 0"
  "total_cost (fin_tuple ex_date ex_zero) = Some 0"
  "profit (fin_tuple ex_date ex_zero) = Some 0"
  "profit_margin (fin_tuple ex_date ex_zero) = None"
  "total_hours (fin_tuple ex_date ex_zero) = Some 0"
  "efficiency_score (fin_tuple ex_date ex_zero) = Some 0"
  by (simp_all add: fin_tuple_def ex_zero_def get_default_def)

lemma ex_zero_iss_row:
  "report_date (fin_tuple ex_date ex_zero_iss) = ex_date"
  "project_code (fin_tuple ex_date ex_zero_iss) = ''P4''"
  "project_type (fin_tuple ex_date ex_zero_iss) = Some ''ISS''"
  "status (fin_tuple ex_date ex_zero_iss) = Some ''Unknown''"
  "contract_price (fin_tuple ex_date ex_zero_iss) = Some 0"
  "total_cost (fin_tuple ex_date ex_zero_iss) = Some 0"
  "profit (fin_tuple ex_date ex_zero_iss) = Some 0"
  "profit_margin (fin_tuple ex_date ex_zero_iss) = None"
  "total_hours (fin_tuple ex_date ex_zero_iss) = Some 0"
  "efficiency_score (fin_tuple ex_date ex_zero_iss) = Some 0"
  by (simp_all add: fin_tuple_def ex_zero_iss_def get_default_def)

lemma ex_stored_zero_eq:
  "ex_stored_zero =
     \<lparr>financial_summary = [fin_tuple ex_date ex_gs, fin_tuple ex_date ex_zero],
      department_summary = [], fin_uncommitted = [], dept_uncommitted = []\<rparr>"
  by (simp add: ex_stored_zero_def ex_stored_gs_eq insert_fin_result raises_Nil commit_def
      today_if_none_def)

lemma ex_stored_alone_eq:
  "ex_stored_alone =
     \<lparr>financial_summary = [fin_tuple ex_date ex_gs, fin_tuple ex_date ex_zero_iss],
      department_summary = [], fin_uncommitted = [], dept_uncommitted = []\<rparr>"
  by (simp add: ex_stored_alone_def ex_stored_gs_eq insert_fin_result raises_Nil commit_def
      today_if_none_def)

lemma ex_more_visible:
  "fin_visible ex_stored_gs = [fin_tuple ex_date ex_gs]"
  "dept_visible ex_stored_gs = []"
  "fin_visible ex_stored_zero = [fin_tuple ex_date ex_gs, fin_tuple ex_date ex_zero]"
  "dept_visible ex_stored_zero = []"
  "fin_visible ex_stored_alone = [fin_tuple ex_date ex_gs, fin_tuple ex_date ex_zero_iss]"
  "dept_visible ex_stored_alone = []"
  by (simp_all add: ex_stored_gs_eq ex_stored_zero_eq ex_stored_alone_eq fin_visible_def
      dept_visible_def)

lemma ex_gs_queries:
  "summary_query [fin_tuple ex_date ex_gs] ex_date ex_date
     = [(1, Some 1000000, Some 700000, Some 300000, Some 30, Some 200)]"
  "type_query [fin_tuple ex_date ex_gs] ex_date ex_date = [(Some ''GS'', 1, Some 300000, Some 30)]"
  "status_query [fin_tuple ex_date ex_gs] ex_date ex_date = [(Some ''Success'', 1, Some 30)]"
  "loss_query [fin_tuple ex_date ex_gs] ex_date ex_date = [(0, None)]"
  "low_eff_query [fin_tuple ex_date ex_gs] ex_date ex_date = [0]"
  by (simp_all add: summary_query_def type_query_def status_query_def loss_query_def
      low_eff_query_def ex_gs_row between_refl count_distinct_def sql_sum_def
      sql_avg_def group_keys_def group_of_def is_equal_def is_not_equal_def is_less_def
      is_greater_def)

lemma ex_zero_queries:
  "summary_query [fin_tuple ex_date ex_gs, fin_tuple ex_date ex_zero] ex_date ex_date
     = [(2, Some 1000000, Some 700000, Some 300000, Some 30, Some 200)]"
  "type_query [fin_tuple ex_date ex_gs, fin_tuple ex_date ex_zero] ex_date ex_date
     = [(Some ''GS'', 2, Some 300000, Some 30)]"
  "status_query [fin_tuple ex_date ex_gs, fin_tuple ex_date ex_zero] ex_date ex_date
     = [(Some ''Success'', 2, Some 30)]"
  "loss_query [fin_tuple ex_date ex_gs, fin_tuple ex_date ex_zero] ex_date ex_date = [(0, None)]"
  "low_eff_query [fin_tuple ex_date ex_gs, fin_tuple ex_date ex_zero] ex_date ex_date = [0]"
  by (simp_all add: summary_query_def type_query_def status_query_def loss_query_def
      low_eff_query_def ex_gs_row ex_zero_row between_refl count_distinct_def sql_sum_def
      sql_avg_def group_keys_def group_of_def is_equal_def is_not_equal_def is_less_def
      is_greater_def)

lemma ex_alone_queries:
  "summary_query [fin_tuple ex_date ex_gs, fin_tuple ex_date ex_zero_iss] ex_date ex_date
     = [(2, Some 1000000, Some 700000, Some 300000, Some 30, Some 200)]"
  "type_query [fin_tuple ex_date ex_gs, fin_tuple ex_date ex_zero_iss] ex_date ex_date
     = [(Some ''GS'', 1, Some 300000, Some 30), (Some ''ISS'', 1, Some 0, None)]"
  by (simp_all add: summary_query_def type_query_def ex_gs_row ex_zero_iss_row between_refl
      count_distinct_def sql_sum_def sql_avg_def group_keys_def group_of_def)

lemma dept_query_Nil: "dept_query [] s e = []"
  by (simp add: dept_query_def dept_groups_def group_keys_def)

lemma ex_report_gs_eval:
  "generate_automated_report [] ex_date ex_stored_gs None None = Inr ex_report_gs"
  unfolding generate_automated_report_def Let_def ex_period ex_more_visible
    ex_gs_queries dept_query_Nil
  by (simp add: execute_ok raises_Nil and_then_ok fetchone_def summary_dict_def int_or_0_def
      float_or_0_def loss_rule_def low_eff_rule_def ex_report_gs_def)

lemma ex_report_zero_eval:
  "generate_automated_report [] ex_date ex_stored_zero None None = Inr ex_report_zero"
  unfolding generate_automated_report_def Let_def ex_period ex_more_visible
    ex_zero_queries dept_query_Nil
  by (simp add: execute_ok raises_Nil and_then_ok fetchone_def summary_dict_def int_or_0_def
      float_or_0_def loss_rule_def low_eff_rule_def ex_report_zero_def)

lemma ex_report_alone_eval:
  "generate_automated_report [] ex_date ex_stored_alone None None = Inl TypeError"
  unfolding generate_automated_report_def Let_def ex_period ex_more_visible
    ex_alone_queries
  by (simp add: execute_ok raises_Nil and_then_def)

text \<open>
  C3: a stored row with contract price 0 has a \<^verbatim>\<open>NULL\<close> margin, and adding such a row to a
  batch does not change the reported mean margin. The means that a report returns do leave
  out the \<^verbatim>\<open>NULL\<close> margins, as shown below. But the report is not returned when the
  zero-price row is the only row of its project type in the period: the mean margin of its
  group is \<^verbatim>\<open>NULL\<close>, and the loop over the types calls \<^verbatim>\<open>float\<close> on it and raises
  \<^verbatim>\<open>TypeError\<close>, while the summary, some lines above, guards the same \<^verbatim>\<open>NULL\<close> with
  \<^verbatim>\<open>if result[4] else 0\<close>. In the example the report of the \<^verbatim>\<open>GS\<close> project alone has the
  mean margin 30. The zero-price \<^verbatim>\<open>ISS\<close> project, whose margin is \<^verbatim>\<open>NaN\<close> in the frame, is
  stored with contract price 0 and a \<^verbatim>\<open>NULL\<close> margin, and the same call then raises
  \<^verbatim>\<open>TypeError\<close> and reports no mean at all.
\<close>

theorem zero_price_row_alone_in_its_type:
  "ContractPrice ex_zero_iss = 0
   \<and> ProfitMargin ex_zero_iss = None
   \<and> insert_financial_summary [] ex_date ex_stored_gs [ex_zero_iss] None
       = (None, ex_stored_alone)
   \<and> financial_summary ex_stored_alone
       = financial_summary ex_stored_gs @ [fin_tuple ex_date ex_zero_iss]
   \<and> contract_price (fin_tuple ex_date ex_zero_iss) = Some 0
   \<and> profit_margin (fin_tuple ex_date ex_zero_iss) = None
   \<and> generate_automated_report [] ex_date ex_stored_gs None None = Inr ex_report_gs
   \<and> map_option avg_profit_margin (summary ex_report_gs) = Some 30
   \<and> generate_automated_report [] ex_date ex_stored_alone None None = Inl TypeError"
proof -
  have "ContractPrice ex_zero_iss = 0" and "ProfitMargin ex_zero_iss = None"
    by (simp_all add: ex_zero_iss_def)
  moreover have "insert_financial_summary [] ex_date ex_stored_gs [ex_zero_iss] None
      = (None, ex_stored_alone)"
    by (simp add: ex_stored_alone_def insert_fin_result raises_Nil)
  moreover have "financial_summary ex_stored_alone
      = financial_summary ex_stored_gs @ [fin_tuple ex_date ex_zero_iss]"
    by (simp add: ex_stored_alone_eq ex_stored_gs_eq)
  moreover have "map_option avg_profit_margin (summary ex_report_gs) = Some 30"
    by (simp add: ex_report_gs_def)
  ultimately show ?thesis
    using ex_zero_iss_row(5) ex_zero_iss_row(8) ex_report_gs_eval ex_report_alone_eval
    by blast
qed

text \<open>
  What holds of the margins when the report is returned. A frame row whose margin is \<^verbatim>\<open>NaN\<close>
  at contract price 0 is stored with contract price 0 and a \<^verbatim>\<open>NULL\<close> margin; the margin of
  every other row is stored as it is given. A stored row whose margin is \<^verbatim>\<open>NULL\<close> is left out
  of every mean margin of a returned report: the mean of the summary and the means of the
  entries by type and by status are the means of the margins of the other rows.
\<close>

theorem null_margin_left_out_of_means:
  fixes before after :: "fin_row list" and now :: date and sa ea :: "date option"
  defines "inside \<equiv>
     filter (\<lambda>row. date_le (period_start now sa) (report_date row)
                  \<and> date_le (report_date row) (today_if_none now ea))
       (before @ after)"
  defines "eligible \<equiv>
     filter (\<lambda>row. date_le (period_start now sa) (report_date row)
                  \<and> date_le (report_date row) (today_if_none now ea)
                  \<and> project_type row = Some ''GS''
                  \<and> (\<exists>st. status row = Some st \<and> st \<noteq> ''Unknown''))
       (before @ after)"
  shows "profit_margin (fin_tuple d row) = ProfitMargin row
   \<and> (ContractPrice row = 0 \<and> ProfitMargin row = None
        \<longrightarrow> contract_price (fin_tuple d row) = Some 0
            \<and> profit_margin (fin_tuple d row) = None)
   \<and> (profit_margin x = None
        \<and> fin_visible c = before @ [x] @ after
        \<and> generate_automated_report faults now c sa ea = Inr r
        \<longrightarrow> map_option avg_profit_margin (summary r) =
              Some (if non_null (map profit_margin inside) = [] then 0
                    else sum_list (non_null (map profit_margin inside))
                         / of_nat (length (non_null (map profit_margin inside))))
          \<and> (\<forall>k entry. project_types r k = Some entry \<longrightarrow>
                non_null (map profit_margin (filter (\<lambda>row. project_type row = k) inside)) \<noteq> []
                \<and> type_avg_margin entry =
                    sum_list (non_null (map profit_margin
                        (filter (\<lambda>row. project_type row = k) inside)))
                    / of_nat (length (non_null (map profit_margin
                        (filter (\<lambda>row. project_type row = k) inside)))))
          \<and> (\<forall>k entry. project_status r k = Some entry \<longrightarrow>
                non_null (map profit_margin (filter (\<lambda>row. status row = k) eligible)) \<noteq> []
                \<and> status_avg_margin entry =
                    sum_list (non_null (map profit_margin
                        (filter (\<lambda>row. status row = k) eligible)))
                    / of_nat (length (non_null (map profit_margin
                        (filter (\<lambda>row. status row = k) eligible))))))"
proof (intro conjI impI)
  show "profit_margin (fin_tuple d row) = ProfitMargin row"
    by (simp add: fin_tuple_def)
next
  assume "ContractPrice row = 0 \<and> ProfitMargin row = None"
  then show "contract_price (fin_tuple d row) = Some 0"
    by (simp add: fin_tuple_def)
next
  assume "ContractPrice row = 0 \<and> ProfitMargin row = None"
  then show "profit_margin (fin_tuple d row) = None"
    by (simp add: fin_tuple_def)
next
  assume a: "profit_margin x = None
        \<and> fin_visible c = before @ [x] @ after
        \<and> generate_automated_report faults now c sa ea = Inr r"
  then have null: "profit_margin x = None"
    and vis: "fin_visible c = before @ [x] @ after"
    and r: "generate_automated_report faults now c sa ea = Inr r"
    by simp_all
  let ?P = "\<lambda>row. date_le (period_start now sa) (report_date row)
                  \<and> date_le (report_date row) (today_if_none now ea)"
  let ?E = "\<lambda>row. date_le (period_start now sa) (report_date row)
                  \<and> date_le (report_date row) (today_if_none now ea)
                  \<and> project_type row = Some ''GS''
                  \<and> (\<exists>st. status row = Some st \<and> st \<noteq> ''Unknown'')"
  have m0: "non_null (map profit_margin (filter ?P (fin_visible c)))
      = non_null (map profit_margin inside)"
    unfolding vis inside_def by (rule null_margin_dropped [OF null])
  have mt: "non_null (map profit_margin (filter (\<lambda>row. project_type row = k)
        (filter ?P (fin_visible c))))
      = non_null (map profit_margin (filter (\<lambda>row. project_type row = k) inside))" for k
    unfolding vis inside_def filter_filter by (rule null_margin_dropped [OF null])
  have ms: "non_null (map profit_margin (filter (\<lambda>row. status row = k)
        (filter ?E (fin_visible c))))
      = non_null (map profit_margin (filter (\<lambda>row. status row = k) eligible))" for k
    unfolding vis eligible_def filter_filter by (rule null_margin_dropped [OF null])
  show "map_option avg_profit_margin (summary r) =
      Some (if non_null (map profit_margin inside) = [] then 0
            else sum_list (non_null (map profit_margin inside))
                 / of_nat (length (non_null (map profit_margin inside))))"
    unfolding summary_of_report [OF r] m0 by simp
  show "\<forall>k entry. project_types r k = Some entry \<longrightarrow>
      non_null (map profit_margin (filter (\<lambda>row. project_type row = k) inside)) \<noteq> []
      \<and> type_avg_margin entry =
          sum_list (non_null (map profit_margin (filter (\<lambda>row. project_type row = k) inside)))
          / of_nat (length (non_null (map profit_margin
              (filter (\<lambda>row. project_type row = k) inside))))"
  proof (intro allI impI)
    fix k entry
    assume e: "project_types r k = Some entry"
    note t = type_entries [OF report_sections(5) [OF r], of k]
    from e t(1) have "k \<in> project_type ` set (filter ?P (fin_visible c))"
      by fastforce
    from t(2) [OF this] e show "non_null (map profit_margin
          (filter (\<lambda>row. project_type row = k) inside)) \<noteq> []
      \<and> type_avg_margin entry =
          sum_list (non_null (map profit_margin (filter (\<lambda>row. project_type row = k) inside)))
          / of_nat (length (non_null (map profit_margin
              (filter (\<lambda>row. project_type row = k) inside))))"
      unfolding mt by auto
  qed
  show "\<forall>k entry. project_status r k = Some entry \<longrightarrow>
      non_null (map profit_margin (filter (\<lambda>row. status row = k) eligible)) \<noteq> []
      \<and> status_avg_margin entry =
          sum_list (non_null (map profit_margin (filter (\<lambda>row. status row = k) eligible)))
          / of_nat (length (non_null (map profit_margin
              (filter (\<lambda>row. status row = k) eligible))))"
  proof (intro allI impI)
    fix k entry
    assume e: "project_status r k = Some entry"
    note t = status_entries [OF report_sections(6) [OF r], of k]
    from e t(1) have "k \<in> status ` set (filter ?E (fin_visible c))"
      by fastforce
    from t(2) [OF this] e show "non_null (map profit_margin
          (filter (\<lambda>row. status row = k) eligible)) \<noteq> []
      \<and> status_avg_margin entry =
          sum_list (non_null (map profit_margin (filter (\<lambda>row. status row = k) eligible)))
          / of_nat (length (non_null (map profit_margin
              (filter (\<lambda>row. status row = k) eligible))))"
      unfolding ms by auto
  qed
qed

theorem null_margin_left_out_of_means_witness:
  "ContractPrice ex_zero = 0
   \<and> ProfitMargin ex_zero = None
   \<and> contract_price (fin_tuple ex_date ex_zero) = Some 0
   \<and> profit_margin (fin_tuple ex_date ex_zero) = None
   \<and> fin_visible ex_stored_zero = [fin_tuple ex_date ex_gs] @ [fin_tuple ex_date ex_zero] @ []
   \<and> generate_automated_report [] ex_date ex_stored_gs None None = Inr ex_report_gs
   \<and> generate_automated_report [] ex_date ex_stored_zero None None = Inr ex_report_zero
   \<and> map_option avg_profit_margin (summary ex_report_gs) = Some 30
   \<and> map_option avg_profit_margin (summary ex_report_zero) = Some 30
   \<and> map_option type_avg_margin (project_types ex_report_gs (Some ''GS'')) = Some 30
   \<and> map_option type_avg_margin (project_types ex_report_zero (Some ''GS'')) = Some 30
   \<and> map_option status_avg_margin (project_status ex_report_gs (Some ''Success'')) = Some 30
   \<and> map_option status_avg_margin (project_status ex_report_zero (Some ''Success'')) = Some 30"
proof -
  note t = null_margin_left_out_of_means
    [where d = ex_date and row = ex_zero and x = "fin_tuple ex_date ex_zero"
       and c = ex_stored_zero
       and before = "[fin_tuple ex_date ex_gs]" and after = "[]" and faults = "[]"
       and now = ex_date and sa = None and ea = None and r = ex_report_zero]
  have z: "ContractPrice ex_zero = 0 \<and> ProfitMargin ex_zero = None"
    by (simp add: ex_zero_def)
  from t [THEN conjunct2, THEN conjunct1, rule_format, OF z]
  have 1: "contract_price (fin_tuple ex_date ex_zero) = Some 0
      \<and> profit_margin (fin_tuple ex_date ex_zero) = None" .
  have h: "profit_margin (fin_tuple ex_date ex_zero) = None
      \<and> fin_visible ex_stored_zero = [fin_tuple ex_date ex_gs] @ [fin_tuple ex_date ex_zero] @ []
      \<and> generate_automated_report [] ex_date ex_stored_zero None None = Inr ex_report_zero"
    using 1 by (simp add: ex_more_visible ex_report_zero_eval)
  have others: "map_option avg_profit_margin (summary ex_report_gs) = Some 30"
    "map_option type_avg_margin (project_types ex_report_gs (Some ''GS'')) = Some 30"
    "map_option type_avg_margin (project_types ex_report_zero (Some ''GS'')) = Some 30"
    "map_option status_avg_margin (project_status ex_report_gs (Some ''Success'')) = Some 30"
    "map_option status_avg_margin (project_status ex_report_zero (Some ''Success'')) = Some 30"
    by (simp_all add: ex_report_gs_def ex_report_zero_def)
  note u = t [THEN conjunct2, THEN conjunct2, rule_format, OF h, unfolded ex_period]
  from u have "map_option avg_profit_margin (summary ex_report_zero) =
      Some (if non_null (map profit_margin (filter (\<lambda>row. date_le ex_date (report_date row)
                  \<and> date_le (report_date row) ex_date) ([fin_tuple ex_date ex_gs] @ []))) = [] then 0
            else sum_list (non_null (map profit_margin (filter (\<lambda>row. date_le ex_date (report_date row)
                  \<and> date_le (report_date row) ex_date) ([fin_tuple ex_date ex_gs] @ []))))
                 / of_nat (length (non_null (map profit_margin (filter (\<lambda>row. date_le ex_date (report_date row)
                  \<and> date_le (report_date row) ex_date) ([fin_tuple ex_date ex_gs] @ []))))))"
    by (rule conjunct1)
  then have 2: "map_option avg_profit_margin (summary ex_report_zero) = Some 30"
    by (simp add: ex_gs_row date_le_refl)
  from z 1 h 2 others ex_report_gs_eval show ?thesis
    by simp
qed

section \<open>The top departments\<close>

lemma sql_sum_alt:
  "sql_sum vs = (if non_null vs = [] then None else Some (sum_list (non_null vs)))"
  by (cases "non_null vs") (simp_all add: sql_sum_def)

lemma sql_avg_alt:
  "sql_avg vs =
     (if non_null vs = [] then None
      else Some (sum_list (non_null vs) / of_nat (length (non_null vs))))"
  by (cases "non_null vs") (simp_all add: sql_avg_def)

lemma non_null_map_option:
  "non_null (map (\<lambda>r. map_option f (h r)) rows) = map f (non_null (map h rows))"
proof (induction rows)
  case Nil
  then show ?case by simp
next
  case (Cons r rows)
  then show ?case by (cases "h r") simp_all
qed

lemma dept_loop_Cons:
  assumes "dept_loop ((k, h, c, a) # rows) acc = Inr out"
  shows "\<exists>entry. entry_row entry = (k, h, c, a) \<and> dept_loop rows (acc @ [entry]) = Inr out"
proof (cases h)
  case None
  with assms show ?thesis by simp
next
  case h: (Some h')
  show ?thesis
  proof (cases c)
    case None
    with assms h show ?thesis by simp
  next
    case c: (Some c')
    show ?thesis
    proof (cases a)
      case None
      with assms h c show ?thesis by simp
    next
      case a: (Some a')
      from assms have "dept_loop rows
          (acc @ [\<lparr>department = k, entry_total_hours = h', entry_total_cost = c',
                   avg_projects = a'\<rparr>]) = Inr out"
        by (simp add: h c a)
      moreover have "entry_row \<lparr>department = k, entry_total_hours = h', entry_total_cost = c',
          avg_projects = a'\<rparr> = (k, h, c, a)"
        by (simp add: entry_row_def h c a)
      ultimately show ?thesis
        by (intro exI conjI)
    qed
  qed
qed

lemma dept_loop_rows:
  "dept_loop rows acc = Inr out \<Longrightarrow> \<exists>es. out = acc @ es \<and> rows = map entry_row es"
proof (induction rows arbitrary: acc)
  case Nil
  then show ?case by simp
next
  case (Cons row rows)
  obtain k h c a where row: "row = (k, h, c, a)"
    by (cases row)
  from Cons.prems have "dept_loop ((k, h, c, a) # rows) acc = Inr out"
    unfolding row .
  from dept_loop_Cons [OF this] obtain entry where e: "entry_row entry = (k, h, c, a)"
    and rest: "dept_loop rows (acc @ [entry]) = Inr out"
    by (elim exE conjE)
  from Cons.IH [OF rest] obtain es where out: "out = (acc @ [entry]) @ es"
    and rows: "rows = map entry_row es"
    by (elim exE conjE)
  have "out = acc @ (entry # es)"
    unfolding out by simp
  moreover have "row # rows = map entry_row (entry # es)"
    unfolding rows row e [symmetric] by simp
  ultimately show ?case
    by (intro exI conjI)
qed

lemma dept_groups_rows:
  fixes rows :: "dept_row list" and s e :: date
  defines "inside \<equiv>
     filter (\<lambda>row. date_le s (dept_report_date row) \<and> date_le (dept_report_date row) e) rows"
  shows "dept_groups rows s e =
     map (\<lambda>k. (k, sql_sum (map dept_total_hours (filter (\<lambda>row. department_name row = k) inside)),
                 sql_sum (map total_labor_cost (filter (\<lambda>row. department_name row = k) inside)),
                 sql_avg (map (\<lambda>r. map_option rat_of_int (num_projects r))
                           (filter (\<lambda>row. department_name row = k) inside))))
       (remdups (map department_name inside))"
  by (simp add: dept_groups_def Let_def between_iff inside_def group_keys_def group_of_def)

lemma desc_key_entry_row: "desc_key (entry_row entry) = (False, - entry_total_hours entry)"
  by (simp add: desc_key_def entry_row_def)

lemma top_of_sorted:
  fixes G :: "(string \<times> rat option \<times> rat option \<times> rat option) list"
  assumes tk: "take 10 (sort_key desc_key G) = map entry_row entries"
    and dist: "distinct (map fst G)"
  shows "length entries \<le> 10"
    and "distinct (map department entries)"
    and "sorted_wrt (\<lambda>a b. entry_total_hours b \<le> entry_total_hours a) entries"
    and "entry \<in> set entries \<Longrightarrow> entry_row entry \<in> set G"
    and "row \<in> set G \<Longrightarrow> fst row \<notin> department ` set entries \<Longrightarrow>
           length entries = 10 \<and> (\<forall>entry\<in>set entries. (False, - entry_total_hours entry) \<le> desc_key row)"
proof -
  let ?L = "sort_key desc_key G"
  have len: "length entries = length (take 10 ?L)"
    unfolding tk by simp
  then show "length entries \<le> 10"
    by simp
  have fst_row: "map fst (map entry_row entries) = map department entries"
    by (simp add: entry_row_def comp_def)
  from dist have "distinct G" and "inj_on fst (set G)"
    by (simp_all add: distinct_map)
  then have "distinct (map fst ?L)"
    by (simp add: distinct_map)
  then have "distinct (take 10 (map fst ?L))"
    by (rule distinct_take)
  then show "distinct (map department entries)"
    unfolding take_map tk fst_row .
  have sorted_L: "sorted (map desc_key ?L)"
    by (rule sorted_sort_key)
  then have "sorted (take 10 (map desc_key ?L))"
    by (rule sorted_wrt_take)
  then have "sorted (map (\<lambda>entry. desc_key (entry_row entry)) entries)"
    unfolding take_map tk by (simp add: comp_def)
  then have "sorted_wrt (\<lambda>a b. (False, - entry_total_hours a) \<le> (False, - entry_total_hours b)) entries"
    by (simp add: sorted_map desc_key_entry_row)
  then show "sorted_wrt (\<lambda>a b. entry_total_hours b \<le> entry_total_hours a) entries"
    by (rule sorted_wrt_mono_rel [rotated]) simp
  have in_L: "entry_row entry \<in> set (take 10 ?L)" if "entry \<in> set entries" for entry
    unfolding tk using that by simp
  show "entry_row entry \<in> set G" if "entry \<in> set entries"
    using in_set_takeD [OF in_L [OF that]] by simp
  show "length entries = 10 \<and> (\<forall>entry\<in>set entries. (False, - entry_total_hours entry) \<le> desc_key row)"
    if row: "row \<in> set G" and absent: "fst row \<notin> department ` set entries"
  proof -
    have "row \<notin> set (take 10 ?L)"
    proof
      assume "row \<in> set (take 10 ?L)"
      then have "row \<in> entry_row ` set entries"
        unfolding tk by simp
      then obtain entry where entry: "entry \<in> set entries" and "row = entry_row entry"
        by (rule imageE)
      then have "fst row = department entry"
        by (simp add: entry_row_def)
      then have "fst row \<in> department ` set entries"
        using entry by (rule image_eqI)
      with absent show False
        by simp
    qed
    moreover from row have "row \<in> set (take 10 ?L @ drop 10 ?L)"
      by simp
    ultimately have in_drop: "row \<in> set (drop 10 ?L)"
      by (simp only: set_append Un_iff) blast
    then have "10 < length ?L"
      by (cases "10 < length ?L") simp_all
    then have "length entries = 10"
      unfolding len by simp
    moreover have "sorted (map desc_key (take 10 ?L @ drop 10 ?L))"
      using sorted_L by simp
    then have "\<forall>x\<in>set (take 10 ?L). \<forall>y\<in>set (drop 10 ?L). desc_key x \<le> desc_key y"
      unfolding sorted_map sorted_wrt_append by blast
    then have "\<forall>x\<in>set (take 10 ?L). desc_key x \<le> desc_key row"
      using in_drop by (rule_tac ballI) (drule_tac x = x in bspec, assumption, drule_tac x = row in bspec, assumption+)
    then have "\<forall>entry\<in>set entries. desc_key (entry_row entry) \<le> desc_key row"
      using in_L by (intro ballI) (erule bspec, assumption)
    ultimately show ?thesis
      by (simp add: desc_key_entry_row)
  qed
qed

lemma sum_list_rat_of_int: "sum_list (map rat_of_int xs) = rat_of_int (sum_list xs)"
  by (induction xs) simp_all

text \<open>
  C8: the top departments of a returned report are at most 10 entries, one per
  department, in descending order of the summed hours. Each entry holds, for the rows of
  its department in the period, the sum of the hours, the sum of the labor costs and the
  mean of the numbers of projects. A department of the period that is not listed is
  absent because 10 others are listed, none of which has fewer summed hours.
\<close>

theorem top_departments_of_report:
  assumes "generate_automated_report faults now c sa ea = Inr r"
  defines "inside \<equiv>
     filter (\<lambda>row. date_le (period_start now sa) (dept_report_date row)
                  \<and> date_le (dept_report_date row) (today_if_none now ea))
       (dept_visible c)"
  defines "hours \<equiv> \<lambda>n. non_null (map dept_total_hours
                           (filter (\<lambda>row. department_name row = n) inside))"
  defines "costs \<equiv> \<lambda>n. non_null (map total_labor_cost
                           (filter (\<lambda>row. department_name row = n) inside))"
  defines "projects \<equiv> \<lambda>n. non_null (map num_projects
                              (filter (\<lambda>row. department_name row = n) inside))"
  shows "length (top_departments r) \<le> 10
   \<and> distinct (map department (top_departments r))
   \<and> sorted_wrt (\<lambda>a b. entry_total_hours b \<le> entry_total_hours a) (top_departments r)
   \<and> (\<forall>entry\<in>set (top_departments r).
         department entry \<in> department_name ` set inside
         \<and> hours (department entry) \<noteq> []
         \<and> entry_total_hours entry = sum_list (hours (department entry))
         \<and> costs (department entry) \<noteq> []
         \<and> entry_total_cost entry = sum_list (costs (department entry))
         \<and> projects (department entry) \<noteq> []
         \<and> avg_projects entry =
             rat_of_int (sum_list (projects (department entry)))
             / of_nat (length (projects (department entry))))
   \<and> (\<forall>n\<in>department_name ` set inside.
         n \<notin> department ` set (top_departments r) \<longrightarrow>
           length (top_departments r) = 10
           \<and> (\<forall>entry\<in>set (top_departments r).
                 hours n = [] \<or> sum_list (hours n) \<le> entry_total_hours entry))"
proof -
  let ?s = "period_start now sa" and ?e = "today_if_none now ea"
  let ?G = "dept_groups (dept_visible c) ?s ?e"
  let ?row = "\<lambda>k. (k, sql_sum (map dept_total_hours (filter (\<lambda>row. department_name row = k) inside)),
                     sql_sum (map total_labor_cost (filter (\<lambda>row. department_name row = k) inside)),
                     sql_avg (map (\<lambda>r. map_option rat_of_int (num_projects r))
                               (filter (\<lambda>row. department_name row = k) inside)))"
  have G: "?G = map ?row (remdups (map department_name inside))"
    unfolding inside_def by (rule dept_groups_rows)
  have dist: "distinct (map fst ?G)"
    unfolding G by (simp add: comp_def)
  have "dept_loop (take 10 (sort_key desc_key ?G)) [] = Inr (top_departments r)"
    using report_sections(7) [OF assms(1)] unfolding dept_query_def .
  from dept_loop_rows [OF this] obtain es where "top_departments r = [] @ es"
    and "take 10 (sort_key desc_key ?G) = map entry_row es"
    by (elim exE conjE)
  then have tk: "take 10 (sort_key desc_key ?G) = map entry_row (top_departments r)"
    by simp
  note sorted = top_of_sorted [OF tk dist]
  have avg: "non_null (map (\<lambda>r. map_option rat_of_int (num_projects r))
        (filter (\<lambda>row. department_name row = k) inside)) = map rat_of_int (projects k)" for k
    unfolding projects_def by (rule non_null_map_option)
  have entry: "department entry \<in> department_name ` set inside
      \<and> hours (department entry) \<noteq> []
      \<and> entry_total_hours entry = sum_list (hours (department entry))
      \<and> costs (department entry) \<noteq> []
      \<and> entry_total_cost entry = sum_list (costs (department entry))
      \<and> projects (department entry) \<noteq> []
      \<and> avg_projects entry =
          rat_of_int (sum_list (projects (department entry)))
          / of_nat (length (projects (department entry)))"
    if "entry \<in> set (top_departments r)" for entry
  proof -
    from sorted(4) [OF that] have "entry_row entry \<in> ?row ` set (remdups (map department_name inside))"
      unfolding G by simp
    then obtain k where k: "k \<in> set (remdups (map department_name inside))"
      and row: "entry_row entry = ?row k"
      by (rule imageE)
    from row have dep: "department entry = k"
      and h: "sql_sum (map dept_total_hours (filter (\<lambda>row. department_name row = k) inside))
                = Some (entry_total_hours entry)"
      and c: "sql_sum (map total_labor_cost (filter (\<lambda>row. department_name row = k) inside))
                = Some (entry_total_cost entry)"
      and a: "sql_avg (map (\<lambda>r. map_option rat_of_int (num_projects r))
                (filter (\<lambda>row. department_name row = k) inside)) = Some (avg_projects entry)"
      by (simp_all add: entry_row_def)
    from k have 1: "k \<in> department_name ` set inside"
      by simp
    from h have 2: "hours k \<noteq> [] \<and> entry_total_hours entry = sum_list (hours k)"
      unfolding sql_sum_alt hours_def by (simp split: if_splits)
    from c have 3: "costs k \<noteq> [] \<and> entry_total_cost entry = sum_list (costs k)"
      unfolding sql_sum_alt costs_def by (simp split: if_splits)
    from a have 4: "projects k \<noteq> []
        \<and> avg_projects entry = rat_of_int (sum_list (projects k)) / of_nat (length (projects k))"
      unfolding sql_avg_alt avg by (simp add: sum_list_rat_of_int split: if_splits)
    from 1 2 3 4 show ?thesis
      unfolding dep by simp
  qed
  have absent: "length (top_departments r) = 10
      \<and> (\<forall>entry\<in>set (top_departments r).
            hours n = [] \<or> sum_list (hours n) \<le> entry_total_hours entry)"
    if n: "n \<in> department_name ` set inside"
      and not_listed: "n \<notin> department ` set (top_departments r)" for n
  proof -
    from n have "?row n \<in> set ?G"
      unfolding G by simp
    moreover from not_listed have "fst (?row n) \<notin> department ` set (top_departments r)"
      by simp
    ultimately have len: "length (top_departments r) = 10"
      and le: "\<forall>entry\<in>set (top_departments r). (False, - entry_total_hours entry) \<le> desc_key (?row n)"
      using sorted(5) by simp_all
    have "hours n = [] \<or> sum_list (hours n) \<le> entry_total_hours entry"
      if "entry \<in> set (top_departments r)" for entry
    proof (cases "hours n = []")
      case True
      then show ?thesis ..
    next
      case False
      then have "desc_key (?row n) = (False, - sum_list (hours n))"
        unfolding desc_key_def sql_sum_alt hours_def by simp
      with le that have "(False, - entry_total_hours entry) \<le> (False, - sum_list (hours n))"
        by simp
      then show ?thesis
        by simp
    qed
    with len show ?thesis
      by simp
  qed
  show ?thesis
    apply (rule conjI, rule sorted(1))
    apply (rule conjI, rule sorted(2))
    apply (rule conjI, rule sorted(3))
    apply (rule conjI)
     apply (rule ballI, erule entry)
    apply (rule ballI, rule impI, erule (1) absent)
    done
qed

lemma ex_dept_row_of_fields:
  "dept_report_date (ex_dept_row_of name h) = ex_date"
  "department_name (ex_dept_row_of name h) = name"
  "dept_total_hours (ex_dept_row_of name h) = Some h"
  "total_labor_cost (ex_dept_row_of name h) = Some (10 * h)"
  "num_projects (ex_dept_row_of name h) = Some 1"
  by (simp_all add: ex_dept_row_of_def)

lemma ex_eleven_groups:
  "dept_groups ex_eleven_rows ex_date ex_date =
     [(''D01'', Some 10, Some 100, Some 1), (''D02'', Some 20, Some 200, Some 1),
      (''D03'', Some 30, Some 300, Some 1), (''D04'', Some 40, Some 400, Some 1),
      (''D05'', Some 50, Some 500, Some 1), (''D06'', Some 60, Some 600, Some 1),
      (''D07'', Some 70, Some 700, Some 1), (''D08'', Some 80, Some 800, Some 1),
      (''D09'', Some 90, Some 900, Some 1), (''D10'', Some 100, Some 1000, Some 1),
      (''D11'', Some 110, Some 1100, Some 1)]"
  by (simp add: dept_groups_def ex_eleven_rows_def ex_dept_row_of_fields between_refl
      group_keys_def group_of_def sql_sum_def sql_avg_def)

lemma ex_eleven_query:
  "dept_query ex_eleven_rows ex_date ex_date =
     [(''D11'', Some 110, Some 1100, Some 1), (''D10'', Some 100, Some 1000, Some 1),
      (''D09'', Some 90, Some 900, Some 1), (''D08'', Some 80, Some 800, Some 1),
      (''D07'', Some 70, Some 700, Some 1), (''D06'', Some 60, Some 600, Some 1),
      (''D05'', Some 50, Some 500, Some 1), (''D04'', Some 40, Some 400, Some 1),
      (''D03'', Some 30, Some 300, Some 1), (''D02'', Some 20, Some 200, Some 1)]"
  unfolding dept_query_def ex_eleven_groups
  by (simp add: sort_key_def desc_key_def)

lemma ex_eleven_visible:
  "fin_visible ex_eleven = []"
  "dept_visible ex_eleven = ex_eleven_rows"
  by (simp_all add: ex_eleven_def fin_visible_def dept_visible_def)

lemma queries_of_no_rows:
  "summary_query [] s e = [(0, None, None, None, None, None)]"
  "type_query [] s e = []"
  "status_query [] s e = []"
  "loss_query [] s e = [(0, None)]"
  "low_eff_query [] s e = [0]"
  by (rule queries_of_empty_period; simp)+

lemma ex_report_eleven_eval:
  "generate_automated_report [] ex_date ex_eleven None None = Inr ex_report_eleven"
  unfolding generate_automated_report_def Let_def ex_period ex_eleven_visible
    queries_of_no_rows ex_eleven_query
  by (simp add: execute_ok raises_Nil and_then_ok fetchone_def summary_dict_def int_or_0_def
      float_or_0_def loss_rule_def low_eff_rule_def ex_report_eleven_def ex_entry_of_def)

theorem top_departments_of_report_witness:
  "generate_automated_report [] ex_date ex_eleven None None = Inr ex_report_eleven
   \<and> map department (top_departments ex_report_eleven) =
       [''D11'', ''D10'', ''D09'', ''D08'', ''D07'', ''D06'', ''D05'', ''D04'', ''D03'', ''D02'']
   \<and> ''D01'' \<in> department_name ` set (dept_visible ex_eleven)
   \<and> ''D01'' \<notin> department ` set (top_departments ex_report_eleven)
   \<and> length (top_departments ex_report_eleven) = 10
   \<and> distinct (map department (top_departments ex_report_eleven))
   \<and> sorted_wrt (\<lambda>a b. entry_total_hours b \<le> entry_total_hours a)
       (top_departments ex_report_eleven)"
proof -
  note t = top_departments_of_report [OF ex_report_eleven_eval, unfolded ex_period]
  have names: "map department (top_departments ex_report_eleven) =
       [''D11'', ''D10'', ''D09'', ''D08'', ''D07'', ''D06'', ''D05'', ''D04'', ''D03'', ''D02'']"
    by (simp add: ex_report_eleven_def ex_entry_of_def)
  have stored: "''D01'' \<in> department_name ` set (dept_visible ex_eleven)"
    by (simp add: ex_eleven_visible ex_eleven_rows_def ex_dept_row_of_fields)
  have inside: "''D01'' \<in> department_name ` set (filter (\<lambda>row. date_le ex_date (dept_report_date row)
      \<and> date_le (dept_report_date row) ex_date) (dept_visible ex_eleven))"
    by (simp add: ex_eleven_visible ex_eleven_rows_def ex_dept_row_of_fields date_le_refl)
  have "''D01'' \<notin> set (map department (top_departments ex_report_eleven))"
    unfolding names by simp
  then have absent: "''D01'' \<notin> department ` set (top_departments ex_report_eleven)"
    by simp
  from t [THEN conjunct2, THEN conjunct1]
  have "distinct (map department (top_departments ex_report_eleven))" .
  moreover from t [THEN conjunct2, THEN conjunct2, THEN conjunct1]
  have "sorted_wrt (\<lambda>a b. entry_total_hours b \<le> entry_total_hours a)
       (top_departments ex_report_eleven)" .
  moreover from t [THEN conjunct2, THEN conjunct2, THEN conjunct2, THEN conjunct2,
      THEN bspec, OF inside, THEN mp, OF absent]
  have "length (top_departments ex_report_eleven) = 10"
    by (rule conjunct1)
  ultimately show ?thesis
    using ex_report_eleven_eval names stored absent by (intro conjI)
qed

section \<open>When the report is returned\<close>

text \<open>
  The theorems above speak of a report that the call returns. The call returns one when
  no query raises and no aggregate that is passed to \<^verbatim>\<open>float\<close> is \<^verbatim>\<open>NULL\<close>, which holds
  when the profit and the margin of every project row and the hours, the labor cost and
  the number of projects of every department row are stored, as they are in every row
  written by the two inserts, but for the margin of a frame row that holds \<^verbatim>\<open>NaN\<close>.
\<close>

lemma type_loop_returns:
  "\<forall>row\<in>set rows. fst (snd (snd row)) \<noteq> None \<and> snd (snd (snd row)) \<noteq> None \<Longrightarrow>
     \<exists>d'. type_loop rows d = Inr d'"
proof (induction rows arbitrary: d)
  case Nil
  then show ?case by simp
next
  case (Cons row rows)
  obtain k n p a where row: "row = (k, n, p, a)"
    by (cases row)
  from Cons.prems obtain p' a' where "p = Some p'" "a = Some a'"
    by (auto simp: row)
  moreover from Cons.prems have "\<forall>row\<in>set rows.
      fst (snd (snd row)) \<noteq> None \<and> snd (snd (snd row)) \<noteq> None"
    by simp
  ultimately show ?case
    using Cons.IH by (simp add: row)
qed

lemma status_loop_returns:
  "\<forall>row\<in>set rows. snd (snd row) \<noteq> None \<Longrightarrow> \<exists>d'. status_loop rows d = Inr d'"
proof (induction rows arbitrary: d)
  case Nil
  then show ?case by simp
next
  case (Cons row rows)
  obtain k n a where row: "row = (k, n, a)"
    by (cases row)
  from Cons.prems obtain a' where "a = Some a'"
    by (auto simp: row)
  moreover from Cons.prems have "\<forall>row\<in>set rows. snd (snd row) \<noteq> None"
    by simp
  ultimately show ?case
    using Cons.IH by (simp add: row)
qed

lemma dept_loop_returns:
  "\<forall>row\<in>set rows. fst (snd row) \<noteq> None \<and> fst (snd (snd row)) \<noteq> None
       \<and> snd (snd (snd row)) \<noteq> None \<Longrightarrow>
     \<exists>out. dept_loop rows acc = Inr out"
proof (induction rows arbitrary: acc)
  case Nil
  then show ?case by simp
next
  case (Cons row rows)
  obtain k h c a where row: "row = (k, h, c, a)"
    by (cases row)
  from Cons.prems obtain h' c' a' where "h = Some h'" "c = Some c'" "a = Some a'"
    by (auto simp: row)
  moreover from Cons.prems have "\<forall>row\<in>set rows. fst (snd row) \<noteq> None
      \<and> fst (snd (snd row)) \<noteq> None \<and> snd (snd (snd row)) \<noteq> None"
    by simp
  ultimately show ?case
    using Cons.IH by (simp add: row)
qed

lemma group_values_not_null:
  assumes "k \<in> key ` set rows" and "\<forall>row\<in>set rows. f row \<noteq> None"
  shows "non_null (map f (filter (\<lambda>row. key row = k) rows)) \<noteq> []"
proof (rule non_null_not_empty)
  from assms(1) show "filter (\<lambda>row. key row = k) rows \<noteq> []"
    by (auto simp: filter_empty_conv)
  from assms(2) show "\<forall>r\<in>set (filter (\<lambda>row. key row = k) rows). f r \<noteq> None"
    by simp
qed

lemma type_query_not_null:
  assumes "\<forall>row\<in>set rows. profit row \<noteq> None \<and> profit_margin row \<noteq> None"
  shows "\<forall>row\<in>set (type_query rows s e).
           fst (snd (snd row)) \<noteq> None \<and> snd (snd (snd row)) \<noteq> None"
proof
  fix row
  let ?inside = "filter (\<lambda>row. date_le s (report_date row) \<and> date_le (report_date row) e) rows"
  let ?g = "\<lambda>k. filter (\<lambda>row. project_type row = k) ?inside"
  assume "row \<in> set (type_query rows s e)"
  then obtain k where k: "k \<in> project_type ` set ?inside"
    and row: "row = (k, length (?g k), sql_sum (map profit (?g k)),
                      sql_avg (map profit_margin (?g k)))"
    unfolding type_query_rows by auto
  from assms have p: "\<forall>row\<in>set ?inside. profit row \<noteq> None"
    and m: "\<forall>row\<in>set ?inside. profit_margin row \<noteq> None"
    by simp_all
  have "non_null (map profit (?g k)) \<noteq> []"
    and "non_null (map profit_margin (?g k)) \<noteq> []"
    by (rule group_values_not_null [OF k p], rule group_values_not_null [OF k m])
  then show "fst (snd (snd row)) \<noteq> None \<and> snd (snd (snd row)) \<noteq> None"
    unfolding row by (simp add: sql_sum_Some sql_avg_Some)
qed

lemma status_query_not_null:
  assumes "\<forall>row\<in>set rows. profit_margin row \<noteq> None"
  shows "\<forall>row\<in>set (status_query rows s e). snd (snd row) \<noteq> None"
proof
  fix row
  let ?eligible = "filter (\<lambda>row. date_le s (report_date row) \<and> date_le (report_date row) e
                                \<and> project_type row = Some ''GS''
                                \<and> (\<exists>st. status row = Some st \<and> st \<noteq> ''Unknown'')) rows"
  let ?g = "\<lambda>k. filter (\<lambda>row. status row = k) ?eligible"
  assume "row \<in> set (status_query rows s e)"
  then obtain k where k: "k \<in> status ` set ?eligible"
    and row: "row = (k, length (?g k), sql_avg (map profit_margin (?g k)))"
    unfolding status_query_rows by auto
  from assms have m: "\<forall>row\<in>set ?eligible. profit_margin row \<noteq> None"
    by simp
  have "non_null (map profit_margin (?g k)) \<noteq> []"
    by (rule group_values_not_null [OF k m])
  then show "snd (snd row) \<noteq> None"
    unfolding row by (simp add: sql_avg_Some)
qed

lemma dept_groups_not_null:
  assumes "\<forall>row\<in>set rows.
      dept_total_hours row \<noteq> None \<and> total_labor_cost row \<noteq> None \<and> num_projects row \<noteq> None"
  shows "\<forall>row\<in>set (dept_groups rows s e). fst (snd row) \<noteq> None
      \<and> fst (snd (snd row)) \<noteq> None \<and> snd (snd (snd row)) \<noteq> None"
proof
  fix row
  let ?inside = "filter (\<lambda>row. date_le s (dept_report_date row)
                               \<and> date_le (dept_report_date row) e) rows"
  let ?g = "\<lambda>k. filter (\<lambda>row. department_name row = k) ?inside"
  assume "row \<in> set (dept_groups rows s e)"
  then obtain k where k: "k \<in> department_name ` set ?inside"
    and row: "row = (k, sql_sum (map dept_total_hours (?g k)),
                      sql_sum (map total_labor_cost (?g k)),
                      sql_avg (map (\<lambda>r. map_option rat_of_int (num_projects r)) (?g k)))"
    unfolding dept_groups_rows by auto
  from assms have h: "\<forall>row\<in>set ?inside. dept_total_hours row \<noteq> None"
    and c: "\<forall>row\<in>set ?inside. total_labor_cost row \<noteq> None"
    and n: "\<forall>row\<in>set ?inside. map_option rat_of_int (num_projects row) \<noteq> None"
    by simp_all
  have "non_null (map dept_total_hours (?g k)) \<noteq> []"
    and "non_null (map total_labor_cost (?g k)) \<noteq> []"
    and "non_null (map (\<lambda>r. map_option rat_of_int (num_projects r)) (?g k)) \<noteq> []"
    by (rule group_values_not_null [OF k h], rule group_values_not_null [OF k c],
        rule group_values_not_null [OF k n])
  then show "fst (snd row) \<noteq> None \<and> fst (snd (snd row)) \<noteq> None
      \<and> snd (snd (snd row)) \<noteq> None"
    unfolding row by (simp add: sql_sum_Some sql_avg_Some)
qed

lemma report_returns:
  assumes "\<forall>k<6. \<not> raises faults k"
    and fin: "\<forall>row\<in>set (fin_visible c). profit row \<noteq> None \<and> profit_margin row \<noteq> None"
    and dept: "\<forall>row\<in>set (dept_visible c).
        dept_total_hours row \<noteq> None \<and> total_labor_cost row \<noteq> None \<and> num_projects row \<noteq> None"
  shows "\<exists>r. generate_automated_report faults now c sa ea = Inr r"
proof -
  let ?s = "period_start now sa" and ?e = "today_if_none now ea"
  from assms(1) have ok: "\<not> raises faults 0" "\<not> raises faults 1" "\<not> raises faults 2"
    "\<not> raises faults 3" "\<not> raises faults 4" "\<not> raises faults 5"
    by simp_all
  from ok(2) have ok1: "\<not> raises faults (Suc 0)"
    by simp
  have "\<exists>d'. type_loop (type_query (fin_visible c) ?s ?e) Map.empty = Inr d'"
    by (rule type_loop_returns [OF type_query_not_null [OF fin]])
  then obtain types where types:
    "type_loop (type_query (fin_visible c) ?s ?e) Map.empty = Inr types"
    by (elim exE)
  from fin have "\<forall>row\<in>set (fin_visible c). profit_margin row \<noteq> None"
    by simp
  then have "\<exists>d'. status_loop (status_query (fin_visible c) ?s ?e) Map.empty = Inr d'"
    by (rule status_loop_returns [OF status_query_not_null])
  then obtain statuses where statuses:
    "status_loop (status_query (fin_visible c) ?s ?e) Map.empty = Inr statuses"
    by (elim exE)
  have "\<forall>row\<in>set (dept_query (dept_visible c) ?s ?e). fst (snd row) \<noteq> None
      \<and> fst (snd (snd row)) \<noteq> None \<and> snd (snd (snd row)) \<noteq> None"
  proof
    fix row
    assume "row \<in> set (dept_query (dept_visible c) ?s ?e)"
    then have "row \<in> set (dept_groups (dept_visible c) ?s ?e)"
      unfolding dept_query_def by (auto dest: in_set_takeD)
    with dept_groups_not_null [OF dept] show "fst (snd row) \<noteq> None
        \<and> fst (snd (snd row)) \<noteq> None \<and> snd (snd (snd row)) \<noteq> None"
      by (rule bspec)
  qed
  then have "\<exists>out. dept_loop (dept_query (dept_visible c) ?s ?e) [] = Inr out"
    by (rule dept_loop_returns)
  then obtain depts where depts:
    "dept_loop (dept_query (dept_visible c) ?s ?e) [] = Inr depts"
    by (elim exE)
  show ?thesis
    unfolding generate_automated_report_def Let_def
    by (simp add: execute_ok ok ok1 and_then_ok types statuses depts loss_rule_of_query)
qed

lemma inserted_rows_not_null:
  "profit (fin_tuple d row) \<noteq> None"
  "ProfitMargin row \<noteq> None \<Longrightarrow> profit_margin (fin_tuple d row) \<noteq> None"
  "dept_total_hours (dept_tuple d drow) \<noteq> None \<and> total_labor_cost (dept_tuple d drow) \<noteq> None
     \<and> num_projects (dept_tuple d drow) \<noteq> None"
  by (simp_all add: fin_tuple_def dept_tuple_def)

end
